theory Spec2Isabelle
  imports Complex_Main "HOL-Library.Log_Nat" "HOL-Library.AList"
begin

section \<open>Python values used by the analyzer\<close>

subsection \<open>Text\<close>

text \<open>
  A Python \<^verbatim>\<open>str\<close> is modelled as a \<^typ>\<open>string\<close>, one \<^typ>\<open>char\<close> per code point; the
  model covers the code points 0 to 255.  \<^verbatim>\<open>len\<close> is \<^const>\<open>length\<close>, \<^verbatim>\<open>+\<close> on
  strings is \<open>@\<close>.
\<close>

text \<open>\<^verbatim>\<open>str.isspace\<close> on one character (also the class \<^verbatim>\<open>\s\<close> of \<^verbatim>\<open>re\<close>).\<close>

definition isspace :: "char \<Rightarrow> bool" where
  "isspace c = (c \<in> set [CHR 0x09, CHR 0x0A, CHR 0x0B, CHR 0x0C, CHR 0x0D,
                            CHR 0x1C, CHR 0x1D, CHR 0x1E, CHR 0x1F, CHR 0x20,
                            CHR 0x85, CHR 0xA0])"

text \<open>\<^verbatim>\<open>s.strip()\<close>: leading and trailing whitespace removed.\<close>

definition strip :: "string \<Rightarrow> string" where
  "strip s = rev (dropWhile isspace (rev (dropWhile isspace s)))"

text \<open>\<^verbatim>\<open>s.lower()\<close>, character by character.\<close>

definition lower_char :: "char \<Rightarrow> char" where
  "lower_char c =
     (let n = (of_char c :: nat) in
      if (65 \<le> n \<and> n \<le> 90) \<or> (192 \<le> n \<and> n \<le> 222 \<and> n \<noteq> 215)
      then char_of (n + 32) else c)"

definition lower :: "string \<Rightarrow> string" where
  "lower s = map lower_char s"

text \<open>
  \<^verbatim>\<open>s.capitalize()\<close>: first character upper case, the rest lower case.  The analyzer applies
  it to the keys of its platform table only, which are ASCII letters.
\<close>

definition upper_char :: "char \<Rightarrow> char" where
  "upper_char c =
     (let n = (of_char c :: nat) in
      if 97 \<le> n \<and> n \<le> 122 then char_of (n - 32) else c)"

definition capitalize :: "string \<Rightarrow> string" where
  "capitalize s = (case s of [] \<Rightarrow> [] | c # cs \<Rightarrow> upper_char c # lower cs)"

text \<open>\<^verbatim>\<open>s.startswith(p)\<close>.\<close>

fun startswith :: "string \<Rightarrow> string \<Rightarrow> bool" where
  "startswith s [] = True"
| "startswith [] (p # ps) = False"
| "startswith (c # cs) (p # ps) = (c = p \<and> startswith cs ps)"

text \<open>\<^verbatim>\<open>sub in s\<close>: substring containment.\<close>

fun py_in :: "string \<Rightarrow> string \<Rightarrow> bool" where
  "py_in sub [] = (sub = [])"
| "py_in sub (c # cs) = (startswith (c # cs) sub \<or> py_in sub cs)"

text \<open>The maximal runs of non-whitespace characters of a text.\<close>

fun tokens :: "string \<Rightarrow> string \<Rightarrow> string list" where
  "tokens cur [] = (if cur = [] then [] else [cur])"
| "tokens cur (c # cs) =
     (if isspace c then (if cur = [] then tokens [] cs else cur # tokens [] cs)
      else tokens (cur @ [c]) cs)"

text \<open>\<^verbatim>\<open>' '.join(xs)\<close>.\<close>

fun join_space :: "string list \<Rightarrow> string" where
  "join_space [] = []"
| "join_space [x] = x"
| "join_space (x # y # ys) = x @ '' '' @ join_space (y # ys)"

text \<open>A text between single quotes and between double quotes.\<close>

definition single_quoted :: "string \<Rightarrow> string" where
  "single_quoted s = [CHR 0x27] @ s @ [CHR 0x27]"

definition double_quoted :: "string \<Rightarrow> string" where
  "double_quoted s = [CHR 0x22] @ s @ [CHR 0x22]"

subsection \<open>Floating point\<close>

text \<open>
  A Python \<^verbatim>\<open>float\<close> is an IEEE 754 binary64 number.  A finite one is modelled by the
  rational number it denotes.  Every arithmetic operation returns the exact result rounded
  to the nearest number with a 53 bit significand, ties to the even significand
  (\<open>fl\<close>).  The exponent range is not bounded in the model: the numbers of this program
  are counts and scores, far inside the range of binary64.
\<close>

text \<open>Rounding to the nearest integer, ties to even: \<^verbatim>\<open>round(x)\<close> of a float.\<close>

definition py_round :: "rat \<Rightarrow> int" where
  "py_round x =
     (let f = \<lfloor>x\<rfloor>; d = x - of_int f in
      if d < 1 / 2 then f
      else if 1 / 2 < d then f + 1
      else if even f then f else f + 1)"

text \<open>The binary exponent of a positive number: \<open>2 powi binade x \<le> x < 2 powi (binade x + 1)\<close>.\<close>

definition binade :: "rat \<Rightarrow> int" where
  "binade x =
     (if 1 \<le> x then bitlen \<lfloor>x\<rfloor> - 1
      else - bitlen (\<lceil>1 / x\<rceil> - 1))"

definition fl :: "rat \<Rightarrow> rat" where
  "fl x =
     (if x = 0 then 0
      else let e = binade \<bar>x\<bar> - 52 in
        of_int (py_round (x / 2 powi e)) * 2 powi e)"

text \<open>A decimal literal such as \<^verbatim>\<open>0.30\<close>, written here as the fraction \<open>30 / 100\<close>.\<close>

definition float_literal :: "rat \<Rightarrow> rat" where
  "float_literal q = fl q"

text \<open>An \<^verbatim>\<open>int\<close> operand of a float operation is converted first.\<close>

definition float_of_int :: "int \<Rightarrow> rat" where
  "float_of_int n = fl (of_int n)"

definition float_add :: "rat \<Rightarrow> rat \<Rightarrow> rat" where
  "float_add x y = fl (x + y)"

definition float_sub :: "rat \<Rightarrow> rat \<Rightarrow> rat" where
  "float_sub x y = fl (x - y)"

definition float_mul :: "rat \<Rightarrow> rat \<Rightarrow> rat" where
  "float_mul x y = fl (x * y)"

text \<open>
  \<^verbatim>\<open>a / b\<close> on two \<^verbatim>\<open>int\<close>s, for \<open>b \<noteq> 0\<close>: the correctly rounded quotient.  Both call sites
  divide by \<^verbatim>\<open>max(n, 1)\<close>.
\<close>

definition int_truediv :: "int \<Rightarrow> int \<Rightarrow> rat" where
  "int_truediv a b = fl (of_int a / of_int b)"

text \<open>
  \<^verbatim>\<open>sum(xs)\<close> over floats: the start value is the \<^verbatim>\<open>int\<close> 0 and the items are added from
  left to right, each addition rounded (the accumulation of CPython up to 3.11; later
  versions add a correction term at the end, which is not modelled).
\<close>

definition py_sum :: "rat list \<Rightarrow> rat" where
  "py_sum xs = foldl float_add (float_of_int 0) xs"

subsection \<open>Regular expressions\<close>

text \<open>
  The patterns of the tracking analyzer are sequences of literal characters, character
  classes, and starred or plussed character classes, with at most one capturing group,
  which encloses one plussed class.  The flag of \<open>Star\<close> and \<open>Plus\<close> marks the captured
  item.
\<close>

datatype rx = Lit char | Cls "char \<Rightarrow> bool" | Star bool "char \<Rightarrow> bool" | Plus bool "char \<Rightarrow> bool"

text \<open>
  Matching at the start of a text, as the backtracking matcher of \<^verbatim>\<open>re\<close> does: a
  repetition takes as many characters as it can and gives them back one by one when the
  rest of the pattern fails.  The result is the captured text and the unread rest.
\<close>

fun rmatch :: "rx list \<Rightarrow> string \<Rightarrow> (string \<times> string) option" where
  "rmatch [] s = Some ([], s)"
| "rmatch (Lit c # r) [] = None"
| "rmatch (Lit c # r) (x # xs) = (if x = c then rmatch r xs else None)"
| "rmatch (Cls p # r) [] = None"
| "rmatch (Cls p # r) (x # xs) = (if p x then rmatch r xs else None)"
| "rmatch (Star g p # r) [] = rmatch r []"
| "rmatch (Star g p # r) (x # xs) =
     (if p x then
        (case rmatch (Star g p # r) xs of
           Some (cap, rest) \<Rightarrow> Some (if g then x # cap else cap, rest)
         | None \<Rightarrow> rmatch r (x # xs))
      else rmatch r (x # xs))"
| "rmatch (Plus g p # r) [] = None"
| "rmatch (Plus g p # r) (x # xs) =
     (if p x then
        (case rmatch (Star g p # r) xs of
           Some (cap, rest) \<Rightarrow> Some (if g then x # cap else cap, rest)
         | None \<Rightarrow> None)
      else None)"

text \<open>
  \<^verbatim>\<open>re.findall(pattern, text)\<close>: the matches from left to right, without overlap; each
  is the captured group when the pattern has one (\<open>grp\<close>), the whole match otherwise.  The
  counter is the number of characters still covered by the last match.
\<close>

fun findall_from :: "bool \<Rightarrow> rx list \<Rightarrow> nat \<Rightarrow> string \<Rightarrow> string list" where
  "findall_from grp r k [] =
     (case k of
        Suc _ \<Rightarrow> []
      | 0 \<Rightarrow> (case rmatch r [] of None \<Rightarrow> [] | Some (cap, rest) \<Rightarrow> [if grp then cap else []]))"
| "findall_from grp r (Suc k) (x # xs) = findall_from grp r k xs"
| "findall_from grp r 0 (x # xs) =
     (case rmatch r (x # xs) of
        None \<Rightarrow> findall_from grp r 0 xs
      | Some (cap, rest) \<Rightarrow>
          (let n = length (x # xs) - length rest in
           (if grp then cap else take n (x # xs)) # findall_from grp r (n - 1) xs))"

definition findall :: "bool \<Rightarrow> rx list \<Rightarrow> string \<Rightarrow> string list" where
  "findall grp r s = findall_from grp r 0 s"

text \<open>The character classes \<^verbatim>\<open>[A-Z0-9]\<close>, \<^verbatim>\<open>[0-9]\<close>, \<^verbatim>\<open>\d\<close> and the quotes.\<close>

definition upper_or_digit :: "char \<Rightarrow> bool" where
  "upper_or_digit c = (c \<in> set ''ABCDEFGHIJKLMNOPQRSTUVWXYZ0123456789'')"

definition digit :: "char \<Rightarrow> bool" where
  "digit c = (c \<in> set ''0123456789'')"

definition quote :: "char \<Rightarrow> bool" where
  "quote c = (c = CHR 0x27 \<or> c = CHR 0x22)"

section \<open>The data model\<close>

text \<open>
  An issue is the dictionary with the keys \<^verbatim>\<open>type\<close>, \<^verbatim>\<open>category\<close>, \<^verbatim>\<open>title\<close>,
  \<^verbatim>\<open>description\<close> and \<^verbatim>\<open>impact\<close>.  The three texts are fixed per rule, up to the numbers
  and lists that the rule formats into them; \<open>issue_title\<close> names the rule and carries
  those values.
\<close>

datatype issue_title =
    Title_tag_lipsa
  | Title_tag_prea_scurt nat
  | Title_tag_prea_lung nat
  | Meta_description_lipsa
  | Meta_description_prea_scurta nat
  | H1_tag_lipsa
  | Multiple_H1_tags nat
  | Imagini_fara_ALT nat int
  | Canonical_URL_lipsa
  | Open_Graph_tags_incomplete "string list"
  | Structured_data_lipsa
  | Google_Tag_Manager_nedetectat
  | Google_Analytics_4_nedetectat
  | Google_Ads_Conversion_Tag_absent
  | Facebook_Pixel_nedetectat
  | Facebook_Pixel_incomplet_configurat nat "string list"
  | Viewport_meta_tag_lipsa
  | Site_ul_nu_foloseste_HTTPS
  | Multe_scripturi_externe nat
  | Cookie_consent_nedetectat
  | Prezenta_pe_Meta_Ads_necunoscuta

record issue =
  type :: string
  category :: string
  title :: issue_title

datatype opportunity_title =
    Audit_complet_Meta_Ads
  | Setup_Google_Ads_Conversion_Tracking
  | Optimizare_SEO_On_Page
  | Optimizare_specifica string

record opportunity =
  opp_category :: string
  opp_title :: opportunity_title

record seo_findings =
  seo_title :: "string option"
  title_length :: nat
  meta_description :: "string option"
  meta_description_length :: nat
  h1_count :: nat
  h1_texts :: "string list"
  total_images :: nat
  images_without_alt :: nat
  images_alt_percentage :: int
  canonical :: "string option"
  og_tags :: "(string \<times> bool) list"
  has_structured_data :: bool
  structured_data_count :: nat

text \<open>\<^verbatim>\<open>ids\<close> is \<^verbatim>\<open>list(set(matches))\<close>: the matches without repetition, in no fixed order.\<close>

record detection =
  detected :: bool
  ids :: "string set"

record tracking_findings =
  gtm :: detection
  ga4 :: detection
  google_ads :: detection
  facebook_pixel :: detection
  facebook_events :: "string list"
  tiktok_pixel :: detection
  enhanced_conversions :: bool

record technical_findings =
  mobile_viewport :: bool
  https :: bool
  lazy_loading :: bool
  lazy_loading_count :: nat
  scripts_count :: nat
  minified_scripts :: nat
  external_scripts :: nat
  stylesheets_count :: nat
  cookie_consent :: bool

datatype meta_note = Facebook_Pixel_activ

text \<open>\<^verbatim>\<open>active_ads\<close> is the number 0 or the text \<^verbatim>\<open>'detected'\<close>.\<close>

record meta_ads_findings =
  checked :: bool
  active_ads :: "int + string"
  ad_formats :: "string list"
  meta_notes :: "meta_note list"

text \<open>
  \<^verbatim>\<open>self.results\<close>.  A findings dictionary that is still \<^verbatim>\<open>{}\<close> is \<open>None\<close>; so is the
  platform before detection and the key \<^verbatim>\<open>error\<close> while it is absent.  \<^verbatim>\<open>scores\<close> is a
  dictionary in insertion order.
\<close>

record results =
  url :: string
  domain :: string
  platform :: "string option"
  seo :: "seo_findings option"
  technical :: "technical_findings option"
  tracking :: "tracking_findings option"
  meta_ads :: "meta_ads_findings option"
  scores :: "(string \<times> int) list"
  issues :: "issue list"
  opportunities :: "opportunity list"
  error :: "string option"

section \<open>The collaborators\<close>

text \<open>
  The outcome of \<^verbatim>\<open>requests.get\<close> followed by \<^verbatim>\<open>raise_for_status\<close>: the text of the
  response, or the description \<^verbatim>\<open>str(e)\<close> of the exception (connection error, timeout,
  status outside 2xx).
\<close>

datatype response = Fetched string | Failed string

text \<open>
  The parsed document, as the analyzer reads it: its tags in document order, each with its
  name, its attributes as written in the markup, and the text \<^verbatim>\<open>get_text()\<close> returns.
\<close>

record tag =
  name :: string
  attrs :: "(string \<times> string) list"
  get_text :: string

type_synonym soup = "tag list"

text \<open>\<^verbatim>\<open>tag.get(key)\<close>.\<close>

definition tag_get :: "tag \<Rightarrow> string \<Rightarrow> string option" where
  "tag_get t key = map_of (attrs t) key"

text \<open>
  The parser splits the value of a multi-valued attribute (\<^verbatim>\<open>class\<close>, \<^verbatim>\<open>rel\<close>, ...) at
  whitespace; a search for such an attribute finds a tag when one of the parts, or the parts
  joined by blanks, is the value searched for.  Every other attribute is compared as a whole.
\<close>

definition multi_valued :: "string \<Rightarrow> string \<Rightarrow> bool" where
  "multi_valued tag_name key =
     (key \<in> set [''class'', ''accesskey'', ''dropzone'']
      \<or> (tag_name \<in> set [''a'', ''link''] \<and> key \<in> set [''rel'', ''rev''])
      \<or> (tag_name \<in> set [''td'', ''th''] \<and> key = ''headers'')
      \<or> (tag_name = ''form'' \<and> key = ''accept-charset'')
      \<or> (tag_name = ''object'' \<and> key = ''archive'')
      \<or> (tag_name = ''area'' \<and> key = ''rel'')
      \<or> (tag_name = ''icon'' \<and> key = ''sizes'')
      \<or> (tag_name = ''iframe'' \<and> key = ''sandbox'')
      \<or> (tag_name = ''output'' \<and> key = ''for''))"

definition attr_matches :: "tag \<Rightarrow> string \<Rightarrow> string \<Rightarrow> bool" where
  "attr_matches t key v =
     (case tag_get t key of
        None \<Rightarrow> False
      | Some w \<Rightarrow>
          if multi_valued (name t) key
          then v \<in> set (tokens [] w) \<or> join_space (tokens [] w) = v
          else w = v)"

text \<open>\<^verbatim>\<open>soup.find_all(n)\<close>, \<^verbatim>\<open>soup.find_all(n, attrs={key: v})\<close> and \<^verbatim>\<open>soup.find_all(n, key=True)\<close>.\<close>

definition find_all :: "soup \<Rightarrow> string \<Rightarrow> tag list" where
  "find_all sp n = filter (\<lambda>t. name t = n) sp"

definition find_all_attrs :: "soup \<Rightarrow> string \<Rightarrow> string \<Rightarrow> string \<Rightarrow> tag list" where
  "find_all_attrs sp n key v = filter (\<lambda>t. name t = n \<and> attr_matches t key v) sp"

definition find_all_having :: "soup \<Rightarrow> string \<Rightarrow> string \<Rightarrow> tag list" where
  "find_all_having sp n key = filter (\<lambda>t. name t = n \<and> tag_get t key \<noteq> None) sp"

text \<open>\<^verbatim>\<open>soup.find(...)\<close>: the first tag found, or \<^verbatim>\<open>None\<close>.\<close>

definition first_of :: "tag list \<Rightarrow> tag option" where
  "first_of ts = (case ts of [] \<Rightarrow> None | t # _ \<Rightarrow> Some t)"

definition find :: "soup \<Rightarrow> string \<Rightarrow> tag option" where
  "find sp n = first_of (find_all sp n)"

definition find_attrs :: "soup \<Rightarrow> string \<Rightarrow> string \<Rightarrow> string \<Rightarrow> tag option" where
  "find_attrs sp n key v = first_of (find_all_attrs sp n key v)"

section \<open>The analyzer\<close>

datatype py_error = AttributeError | TypeError

text \<open>\<^verbatim>\<open>self\<close>: the fields of a \<^verbatim>\<open>WebsiteAnalyzer\<close>.\<close>

record analyzer =
  self_url :: string
  self_domain :: string
  html :: "string option"
  soup :: "soup option"
  results :: results

text \<open>Line 15: the target of the analysis.\<close>

definition target_url :: "string \<Rightarrow> string" where
  "target_url u = (if startswith u ''http'' then u else ''https://'' @ u)"

text \<open>
  \<^verbatim>\<open>__init__\<close>.  \<open>netloc\<close> stands for \<^verbatim>\<open>urlparse(u).netloc\<close> of the standard library, the
  network location of a URL.
\<close>

definition init :: "(string \<Rightarrow> string) \<Rightarrow> string \<Rightarrow> analyzer" where
  "init netloc u =
     (let target = target_url u; dmn = netloc target in
      \<lparr>self_url = target, self_domain = dmn, html = None, soup = None,
       results = \<lparr>url = target, domain = dmn, platform = None, seo = None,
                  technical = None, tracking = None, meta_ads = None, scores = [],
                  issues = [], opportunities = [], error = None\<rparr>\<rparr>)"

text \<open>
  \<^verbatim>\<open>crawl\<close>.  \<open>requests_get\<close> is the fetch of a URL, \<open>parser\<close> is
  \<^verbatim>\<open>BeautifulSoup(text, 'html.parser')\<close>, whose failure, like that of the fetch, is an
  exception described by a text.  Every exception is caught and recorded.
\<close>

definition crawl ::
  "(string \<Rightarrow> response) \<Rightarrow> (string \<Rightarrow> string + soup) \<Rightarrow> analyzer \<Rightarrow> analyzer \<times> bool" where
  "crawl requests_get parser a =
     (case requests_get (self_url a) of
        Failed e \<Rightarrow> (a\<lparr>results := (results a)\<lparr>error := Some e\<rparr>\<rparr>, False)
      | Fetched text \<Rightarrow>
          (case parser text of
             Inl e \<Rightarrow> (a\<lparr>html := Some text, results := (results a)\<lparr>error := Some e\<rparr>\<rparr>, False)
           | Inr sp \<Rightarrow> (a\<lparr>html := Some text, soup := Some sp\<rparr>, True)))"

subsection \<open>Platform detection\<close>

definition platforms :: "(string \<times> string list) list" where
  "platforms =
     [(''merchantpro'', [''merchantpro'', ''mp-'']),
      (''gomag'', [''gomag'', ''gomag.ro'']),
      (''shopify'', [''shopify'', ''cdn.shopify'']),
      (''woocommerce'', [''woocommerce'', ''wp-content/plugins/woocommerce'']),
      (''magento'', [''magento'', ''mage'']),
      (''prestashop'', [''prestashop'', ''presta'']),
      (''opencart'', [''opencart'']),
      (''vtex'', [''vtex''])]"

text \<open>The inner loop: does one of the signatures occur?\<close>

fun scan_signatures :: "string \<Rightarrow> string list \<Rightarrow> bool" where
  "scan_signatures h [] = False"
| "scan_signatures h (sig # sigs) = (if py_in sig h then True else scan_signatures h sigs)"

text \<open>The outer loop, which returns at the first platform with a signature that occurs.\<close>

fun scan_platforms :: "string \<Rightarrow> (string \<times> string list) list \<Rightarrow> string option" where
  "scan_platforms h [] = None"
| "scan_platforms h ((p, sigs) # rest) =
     (if scan_signatures h sigs then Some p else scan_platforms h rest)"

text \<open>\<^verbatim>\<open>self.html.lower() if self.html else ''\<close>.\<close>

definition html_lower :: "analyzer \<Rightarrow> string" where
  "html_lower a = (case html a of None \<Rightarrow> [] | Some h \<Rightarrow> if h = [] then [] else lower h)"

text \<open>
  \<^verbatim>\<open>detect_platform\<close>: the new state and the value returned (the key of the table, or
  \<^verbatim>\<open>None\<close>).  The name shown to the user is stored in the result.
\<close>

definition detect_platform :: "analyzer \<Rightarrow> analyzer \<times> string option" where
  "detect_platform a =
     (case scan_platforms (html_lower a) platforms of
        Some p \<Rightarrow> (a\<lparr>results := (results a)\<lparr>platform := Some (capitalize p)\<rparr>\<rparr>, Some p)
      | None \<Rightarrow> (a\<lparr>results := (results a)\<lparr>platform := Some ''Unknown''\<rparr>\<rparr>, None))"

subsection \<open>Scores\<close>

text \<open>
  The loop that ends each analyzer: from \<open>score\<close>, subtract \<open>e\<close> for each issue of the
  category with type \<^verbatim>\<open>error\<close> and \<open>w\<close> for each other issue of the category.
\<close>

fun deduct :: "string \<Rightarrow> int \<Rightarrow> int \<Rightarrow> int \<Rightarrow> issue list \<Rightarrow> int" where
  "deduct cat e w score [] = score"
| "deduct cat e w score (i # is) =
     deduct cat e w
       (if category i = cat then score - (if type i = ''error'' then e else w) else score) is"

text \<open>\<^verbatim>\<open>scores[k] = v\<close> and \<^verbatim>\<open>scores.get(k, d)\<close>.\<close>

definition set_score :: "string \<Rightarrow> int \<Rightarrow> results \<Rightarrow> results" where
  "set_score k v r = r\<lparr>scores := AList.update k v (scores r)\<rparr>"

definition get_score :: "(string \<times> int) list \<Rightarrow> string \<Rightarrow> int \<Rightarrow> int" where
  "get_score sc k d = (case map_of sc k of None \<Rightarrow> d | Some v \<Rightarrow> v)"

subsection \<open>The SEO analyzer\<close>

definition mk_issue :: "string \<Rightarrow> string \<Rightarrow> issue_title \<Rightarrow> issue" where
  "mk_issue t c ttl = \<lparr>type = t, category = c, title = ttl\<rparr>"

text \<open>\<^verbatim>\<open>not x\<close> for a value that is a text or \<^verbatim>\<open>None\<close>, and \<^verbatim>\<open>len(x) if x else 0\<close>.\<close>

definition falsy :: "string option \<Rightarrow> bool" where
  "falsy x = (case x of None \<Rightarrow> True | Some s \<Rightarrow> s = [])"

definition len_or_0 :: "string option \<Rightarrow> nat" where
  "len_or_0 x = (if falsy x then 0 else length (the x))"

text \<open>Title tag.\<close>

definition title_of :: "soup \<Rightarrow> string option" where
  "title_of sp = (case find sp ''title'' of None \<Rightarrow> None | Some t \<Rightarrow> Some (strip (get_text t)))"

definition title_issues :: "soup \<Rightarrow> issue list" where
  "title_issues sp =
     (let n = len_or_0 (title_of sp) in
      if falsy (title_of sp) then [mk_issue ''error'' ''seo'' Title_tag_lipsa]
      else if n < 30 then [mk_issue ''warning'' ''seo'' (Title_tag_prea_scurt n)]
      else if 60 < n then [mk_issue ''warning'' ''seo'' (Title_tag_prea_lung n)]
      else [])"

text \<open>Meta description.\<close>

definition meta_description_of :: "soup \<Rightarrow> string option" where
  "meta_description_of sp =
     (case find_attrs sp ''meta'' ''name'' ''description'' of
        None \<Rightarrow> None
      | Some t \<Rightarrow> if falsy (tag_get t ''content'') then None
                  else Some (strip (the (tag_get t ''content''))))"

definition meta_description_issues :: "soup \<Rightarrow> issue list" where
  "meta_description_issues sp =
     (let n = len_or_0 (meta_description_of sp) in
      if falsy (meta_description_of sp) then [mk_issue ''error'' ''seo'' Meta_description_lipsa]
      else if n < 120 then [mk_issue ''warning'' ''seo'' (Meta_description_prea_scurta n)]
      else [])"

text \<open>H1 tags.\<close>

definition h1_issues :: "soup \<Rightarrow> issue list" where
  "h1_issues sp =
     (let n = length (find_all sp ''h1'') in
      if n = 0 then [mk_issue ''error'' ''seo'' H1_tag_lipsa]
      else if 1 < n then [mk_issue ''warning'' ''seo'' (Multiple_H1_tags n)]
      else [])"

text \<open>Images without ALT.\<close>

definition without_alt :: "tag \<Rightarrow> bool" where
  "without_alt img =
     (falsy (tag_get img ''alt'') \<or> strip (the (tag_get img ''alt'')) = [])"

definition images_without_alt_of :: "soup \<Rightarrow> tag list" where
  "images_without_alt_of sp = filter without_alt (find_all sp ''img'')"

definition alt_percentage :: "soup \<Rightarrow> int" where
  "alt_percentage sp =
     py_round (float_mul
       (float_sub (float_of_int 1)
          (int_truediv (int (length (images_without_alt_of sp)))
             (max (int (length (find_all sp ''img''))) 1)))
       (float_of_int 100))"

definition missing_alt_pct :: "nat \<Rightarrow> nat \<Rightarrow> int" where
  "missing_alt_pct n_missing n_images =
     py_round (float_mul (int_truediv (int n_missing) (max (int n_images) 1)) (float_of_int 100))"

definition image_issues :: "soup \<Rightarrow> issue list" where
  "image_issues sp =
     (let n_missing = length (images_without_alt_of sp);
          n_images = length (find_all sp ''img'') in
      if 0 < n_missing then
        (let pct = missing_alt_pct n_missing n_images in
         [mk_issue (if pct < 50 then ''warning'' else ''error'') ''seo''
            (Imagini_fara_ALT n_missing pct)])
      else [])"

text \<open>Canonical URL.\<close>

definition canonical_of :: "soup \<Rightarrow> string option" where
  "canonical_of sp =
     (case find_attrs sp ''link'' ''rel'' ''canonical'' of
        None \<Rightarrow> None
      | Some t \<Rightarrow> if falsy (tag_get t ''href'') then None else tag_get t ''href'')"

definition canonical_issues :: "soup \<Rightarrow> issue list" where
  "canonical_issues sp =
     (if falsy (canonical_of sp) then [mk_issue ''warning'' ''seo'' Canonical_URL_lipsa] else [])"

text \<open>Open Graph tags.\<close>

definition og_tags_of :: "soup \<Rightarrow> (string \<times> bool) list" where
  "og_tags_of sp =
     [(''title'', find_attrs sp ''meta'' ''property'' ''og:title'' \<noteq> None),
      (''description'', find_attrs sp ''meta'' ''property'' ''og:description'' \<noteq> None),
      (''image'', find_attrs sp ''meta'' ''property'' ''og:image'' \<noteq> None)]"

definition og_issues :: "soup \<Rightarrow> issue list" where
  "og_issues sp =
     (let missing_og = map fst (filter (\<lambda>(k, v). \<not> v) (og_tags_of sp)) in
      if missing_og \<noteq> [] then [mk_issue ''warning'' ''seo'' (Open_Graph_tags_incomplete missing_og)]
      else [])"

text \<open>Structured data.\<close>

definition schema_scripts :: "soup \<Rightarrow> tag list" where
  "schema_scripts sp = find_all_attrs sp ''script'' ''type'' ''application/ld+json''"

definition structured_data_issues :: "soup \<Rightarrow> issue list" where
  "structured_data_issues sp =
     (if \<not> 0 < length (schema_scripts sp) then [mk_issue ''warning'' ''seo'' Structured_data_lipsa]
      else [])"

definition seo_issues :: "soup \<Rightarrow> issue list" where
  "seo_issues sp =
     title_issues sp @ meta_description_issues sp @ h1_issues sp @ image_issues sp
     @ canonical_issues sp @ og_issues sp @ structured_data_issues sp"

definition seo_of :: "soup \<Rightarrow> seo_findings" where
  "seo_of sp =
     \<lparr>seo_title = title_of sp,
      title_length = len_or_0 (title_of sp),
      meta_description = meta_description_of sp,
      meta_description_length = len_or_0 (meta_description_of sp),
      h1_count = length (find_all sp ''h1''),
      h1_texts = map (\<lambda>h1. strip (get_text h1)) (take 3 (find_all sp ''h1'')),
      total_images = length (find_all sp ''img''),
      images_without_alt = length (images_without_alt_of sp),
      images_alt_percentage = alt_percentage sp,
      canonical = canonical_of sp,
      og_tags = og_tags_of sp,
      has_structured_data = (0 < length (schema_scripts sp)),
      structured_data_count = length (schema_scripts sp)\<rparr>"

text \<open>
  \<^verbatim>\<open>analyze_seo\<close>.  Without a parsed document the first \<^verbatim>\<open>self.soup.find\<close> raises.
\<close>

definition analyze_seo :: "analyzer \<Rightarrow> py_error + analyzer" where
  "analyze_seo a =
     (case soup a of
        None \<Rightarrow> Inl AttributeError
      | Some sp \<Rightarrow>
          (let found = seo_issues sp;
               score = deduct ''seo'' 15 8 100 found in
           Inr (a\<lparr>results :=
                 set_score ''seo'' (max 0 (min 100 score))
                   ((results a)\<lparr>seo := Some (seo_of sp),
                                issues := issues (results a) @ found\<rparr>)\<rparr>)))"

subsection \<open>The tracking analyzer\<close>

definition gtm_pattern :: "rx list" where
  "gtm_pattern = map Lit ''GTM-'' @ [Plus False upper_or_digit]"

definition ga4_pattern :: "rx list" where
  "ga4_pattern = map Lit ''G-'' @ [Plus False upper_or_digit]"

definition gads_pattern :: "rx list" where
  "gads_pattern = map Lit ''AW-'' @ [Plus False digit]"

definition fb_pixel_pattern :: "rx list" where
  "fb_pixel_pattern =
     map Lit ''fbq'' @ [Star False isspace, Lit CHR ''('', Star False isspace, Cls quote]
     @ map Lit ''init'' @ [Cls quote, Star False isspace, Lit CHR '','', Star False isspace,
        Cls quote, Plus True digit, Cls quote, Star False isspace, Lit CHR '')'']"

definition tiktok_pattern :: "rx list" where
  "tiktok_pattern =
     map Lit ''ttq.load'' @ [Star False isspace, Lit CHR ''('', Star False isspace, Cls quote,
        Plus True upper_or_digit, Cls quote, Star False isspace, Lit CHR '')'']"

definition detect :: "bool \<Rightarrow> rx list \<Rightarrow> string \<Rightarrow> detection" where
  "detect grp r h =
     (let matches = findall grp r h in \<lparr>detected = (0 < length matches), ids = set matches\<rparr>)"

definition fb_event_names :: "string list" where
  "fb_event_names =
     [''Purchase'', ''AddToCart'', ''ViewContent'', ''InitiateCheckout'', ''AddPaymentInfo'']"

definition fb_events_of :: "string \<Rightarrow> string list" where
  "fb_events_of h =
     filter (\<lambda>event. py_in (single_quoted event) h \<or> py_in (double_quoted event) h)
       fb_event_names"

definition tracking_of :: "string \<Rightarrow> tracking_findings" where
  "tracking_of h =
     \<lparr>gtm = detect False gtm_pattern h,
      ga4 = detect False ga4_pattern h,
      google_ads = detect False gads_pattern h,
      facebook_pixel = detect True fb_pixel_pattern h,
      facebook_events = fb_events_of h,
      tiktok_pixel = detect True tiktok_pattern h,
      enhanced_conversions =
        (py_in ''enhanced_conversion'' (lower h) \<or> py_in ''user_data'' (lower h))\<rparr>"

definition tracking_issues :: "string \<Rightarrow> issue list" where
  "tracking_issues h =
     (let t = tracking_of h in
      (if \<not> detected (gtm t) then [mk_issue ''error'' ''tracking'' Google_Tag_Manager_nedetectat]
       else [])
      @ (if \<not> detected (ga4 t) then [mk_issue ''error'' ''tracking'' Google_Analytics_4_nedetectat]
         else [])
      @ (if \<not> detected (google_ads t)
         then [mk_issue ''error'' ''tracking'' Google_Ads_Conversion_Tag_absent] else [])
      @ (if \<not> detected (facebook_pixel t)
         then [mk_issue ''error'' ''tracking'' Facebook_Pixel_nedetectat]
         else if length (facebook_events t) < 3
         then [mk_issue ''warning'' ''tracking''
                 (Facebook_Pixel_incomplet_configurat (length (facebook_events t))
                    (facebook_events t))]
         else []))"

text \<open>
  \<^verbatim>\<open>analyze_tracking\<close>.  Without a fetched text the first \<^verbatim>\<open>re.findall\<close> raises.
\<close>

definition analyze_tracking :: "analyzer \<Rightarrow> py_error + analyzer" where
  "analyze_tracking a =
     (case html a of
        None \<Rightarrow> Inl TypeError
      | Some h \<Rightarrow>
          (let found = tracking_issues h;
               score = deduct ''tracking'' 18 10 100 found in
           Inr (a\<lparr>results :=
                 set_score ''tracking'' (max 0 (min 100 score))
                   ((results a)\<lparr>tracking := Some (tracking_of h),
                                issues := issues (results a) @ found\<rparr>)\<rparr>)))"

subsection \<open>The technical analyzer\<close>

text \<open>\<^verbatim>\<open>s.get('src', '')\<close>.\<close>

definition src_of :: "tag \<Rightarrow> string" where
  "src_of s = (case tag_get s ''src'' of None \<Rightarrow> [] | Some v \<Rightarrow> v)"

definition scripts_of :: "soup \<Rightarrow> tag list" where
  "scripts_of sp = find_all_having sp ''script'' ''src''"

definition external_scripts_of :: "string \<Rightarrow> soup \<Rightarrow> tag list" where
  "external_scripts_of dmn sp =
     filter (\<lambda>s. startswith (src_of s) ''http'' \<and> \<not> py_in dmn (src_of s)) (scripts_of sp)"

definition has_cookie_consent :: "string \<Rightarrow> bool" where
  "has_cookie_consent h =
     list_ex (\<lambda>p. py_in p (lower h)) [''cookie'', ''gdpr'', ''consent'', ''privacy'']"

definition technical_of :: "string \<Rightarrow> string \<Rightarrow> soup \<Rightarrow> string \<Rightarrow> technical_findings" where
  "technical_of u dmn sp h =
     \<lparr>mobile_viewport = (find_attrs sp ''meta'' ''name'' ''viewport'' \<noteq> None),
      https = startswith u ''https'',
      lazy_loading = (0 < length (find_all_attrs sp ''img'' ''loading'' ''lazy'')),
      lazy_loading_count = length (find_all_attrs sp ''img'' ''loading'' ''lazy''),
      scripts_count = length (scripts_of sp),
      minified_scripts = length (filter (\<lambda>s. py_in ''.min.'' (src_of s)) (scripts_of sp)),
      external_scripts = length (external_scripts_of dmn sp),
      stylesheets_count = length (find_all_attrs sp ''link'' ''rel'' ''stylesheet''),
      cookie_consent = has_cookie_consent h\<rparr>"

definition technical_issues :: "string \<Rightarrow> string \<Rightarrow> soup \<Rightarrow> string \<Rightarrow> issue list" where
  "technical_issues u dmn sp h =
     (let t = technical_of u dmn sp h in
      (if \<not> mobile_viewport t then [mk_issue ''error'' ''technical'' Viewport_meta_tag_lipsa]
       else [])
      @ (if \<not> https t then [mk_issue ''error'' ''technical'' Site_ul_nu_foloseste_HTTPS] else [])
      @ (if 15 < external_scripts t
         then [mk_issue ''warning'' ''technical'' (Multe_scripturi_externe (external_scripts t))]
         else [])
      @ (if \<not> cookie_consent t then [mk_issue ''warning'' ''technical'' Cookie_consent_nedetectat]
         else []))"

text \<open>
  \<^verbatim>\<open>analyze_technical\<close>.  It reads the parsed document first and the fetched text at the
  cookie check; either one missing raises.
\<close>

definition analyze_technical :: "analyzer \<Rightarrow> py_error + analyzer" where
  "analyze_technical a =
     (case soup a of
        None \<Rightarrow> Inl AttributeError
      | Some sp \<Rightarrow>
          (case html a of
             None \<Rightarrow> Inl AttributeError
           | Some h \<Rightarrow>
               (let found = technical_issues (self_url a) (self_domain a) sp h;
                    score = deduct ''technical'' 15 8 100 found in
                Inr (a\<lparr>results :=
                      set_score ''technical'' (max 0 (min 100 score))
                        ((results a)\<lparr>technical :=
                                       Some (technical_of (self_url a) (self_domain a) sp h),
                                     issues := issues (results a) @ found\<rparr>)\<rparr>))))"

subsection \<open>The Meta Ads check\<close>

definition has_fb_pixel :: "results \<Rightarrow> bool" where
  "has_fb_pixel r = (case tracking r of None \<Rightarrow> False | Some t \<Rightarrow> detected (facebook_pixel t))"

definition check_meta_ads_library :: "analyzer \<Rightarrow> analyzer" where
  "check_meta_ads_library a =
     (let r = results a in
      if has_fb_pixel r then
        a\<lparr>results :=
            set_score ''meta_ads'' 70
              (r\<lparr>meta_ads := Some \<lparr>checked = True, active_ads = Inr ''detected'',
                                   ad_formats = [], meta_notes = [Facebook_Pixel_activ]\<rparr>,
                 opportunities := opportunities r
                   @ [\<lparr>opp_category = ''meta_ads'', opp_title = Audit_complet_Meta_Ads\<rparr>]\<rparr>)\<rparr>
      else
        a\<lparr>results :=
            set_score ''meta_ads'' 40
              (r\<lparr>meta_ads := Some \<lparr>checked = True, active_ads = Inl 0,
                                   ad_formats = [], meta_notes = []\<rparr>,
                 issues := issues r
                   @ [mk_issue ''warning'' ''meta_ads'' Prezenta_pe_Meta_Ads_necunoscuta]\<rparr>)\<rparr>)"

subsection \<open>The overall score\<close>

definition weights :: "(string \<times> rat) list" where
  "weights =
     [(''seo'', float_literal (30 / 100)),
      (''tracking'', float_literal (35 / 100)),
      (''technical'', float_literal (20 / 100)),
      (''meta_ads'', float_literal (15 / 100))]"

definition weighted_sum :: "(string \<times> int) list \<Rightarrow> rat" where
  "weighted_sum sc = py_sum (map (\<lambda>(k, w). float_mul (float_of_int (get_score sc k 50)) w) weights)"

definition calculate_overall_score :: "analyzer \<Rightarrow> analyzer" where
  "calculate_overall_score a =
     (let sc = scores (results a) in
      if sc = [] then a\<lparr>results := set_score ''overall'' 0 (results a)\<rparr>
      else a\<lparr>results := set_score ''overall'' (py_round (weighted_sum sc)) (results a)\<rparr>)"

subsection \<open>Opportunities\<close>

definition google_ads_detected :: "results \<Rightarrow> bool" where
  "google_ads_detected r = (case tracking r of None \<Rightarrow> False | Some t \<Rightarrow> detected (google_ads t))"

definition generate_opportunities :: "analyzer \<Rightarrow> analyzer" where
  "generate_opportunities a =
     (let r = results a;
          seo_found = filter (\<lambda>i. category i = ''seo'') (issues r) in
      a\<lparr>results := r\<lparr>opportunities :=
          opportunities r
          @ (if \<not> google_ads_detected r
             then [\<lparr>opp_category = ''google_ads'',
                    opp_title = Setup_Google_Ads_Conversion_Tracking\<rparr>] else [])
          @ (if 2 \<le> length seo_found
             then [\<lparr>opp_category = ''seo'', opp_title = Optimizare_SEO_On_Page\<rparr>] else [])
          @ (case platform r of
               None \<Rightarrow> []
             | Some p \<Rightarrow>
                 if p \<in> set [''Merchantpro'', ''Gomag'', ''Shopify'']
                 then [\<lparr>opp_category = ''platform'', opp_title = Optimizare_specifica p\<rparr>]
                 else [])\<rparr>\<rparr>)"

subsection \<open>The full analysis\<close>

text \<open>\<^verbatim>\<open>run_full_analysis\<close>: the result returned, or the exception that escapes.\<close>

definition run_full_analysis ::
  "(string \<Rightarrow> response) \<Rightarrow> (string \<Rightarrow> string + soup) \<Rightarrow> analyzer \<Rightarrow> py_error + results" where
  "run_full_analysis requests_get parser a =
     (case crawl requests_get parser a of
        (a0, False) \<Rightarrow> Inr (results a0)
      | (a0, True) \<Rightarrow>
          (case analyze_seo (fst (detect_platform a0)) of
             Inl e \<Rightarrow> Inl e
           | Inr a1 \<Rightarrow>
               (case analyze_tracking a1 of
                  Inl e \<Rightarrow> Inl e
                | Inr a2 \<Rightarrow>
                    (case analyze_technical a2 of
                       Inl e \<Rightarrow> Inl e
                     | Inr a3 \<Rightarrow>
                         Inr (results (generate_opportunities
                                (calculate_overall_score (check_meta_ads_library a3))))))))"

section \<open>Notions used to state the properties\<close>

text \<open>The issues an analyzer appended: those of the new state beyond those of the old.\<close>

definition new_issues :: "analyzer \<Rightarrow> analyzer \<Rightarrow> issue list" where
  "new_issues a a' = drop (length (issues (results a))) (issues (results a'))"

text \<open>
  The texts a pattern describes: the reading of a pattern as a set of texts, without
  reference to the order in which a matcher tries the alternatives.
\<close>

fun accepts :: "rx list \<Rightarrow> string \<Rightarrow> bool" where
  "accepts [] s = (s = [])"
| "accepts (Lit c # r) [] = False"
| "accepts (Lit c # r) (x # xs) = (x = c \<and> accepts r xs)"
| "accepts (Cls p # r) [] = False"
| "accepts (Cls p # r) (x # xs) = (p x \<and> accepts r xs)"
| "accepts (Star g p # r) [] = accepts r []"
| "accepts (Star g p # r) (x # xs) =
     (accepts r (x # xs) \<or> (p x \<and> accepts (Star g p # r) xs))"
| "accepts (Plus g p # r) [] = False"
| "accepts (Plus g p # r) (x # xs) = (p x \<and> accepts (Star g p # r) xs)"

text \<open>The issue about images without ALT, and the two readings of an image lacking its ALT.\<close>

definition is_alt_issue :: "issue \<Rightarrow> bool" where
  "is_alt_issue i = (case title i of Imagini_fara_ALT _ _ \<Rightarrow> True | _ \<Rightarrow> False)"

text \<open>The attribute is absent or is the empty text.\<close>

definition lacks_nonempty_alt :: "tag \<Rightarrow> bool" where
  "lacks_nonempty_alt img = (case tag_get img ''alt'' of None \<Rightarrow> True | Some v \<Rightarrow> v = [])"

text \<open>The attribute is absent or is empty once whitespace is stripped.\<close>

definition blank_alt :: "tag \<Rightarrow> bool" where
  "blank_alt img = (case tag_get img ''alt'' of None \<Rightarrow> True | Some v \<Rightarrow> strip v = [])"




definition url_host :: "string \<Rightarrow> string" where
  "url_host u =
     (let rest = (if startswith u ''https://'' then drop 8 u
                  else if startswith u ''http://'' then drop 7 u else [])
      in takeWhile (\<lambda>c. c \<notin> set ''/?#'') rest)"


section \<open>Example inputs\<close>

text \<open>
  The host of an absolute address is also what \<^verbatim>\<open>urlparse(u).netloc\<close> returns for it; the
  examples construct their analyzer with it, for the input \<^verbatim>\<open>example.com\<close>.
\<close>

definition example_analyzer :: analyzer where
  "example_analyzer = init url_host ''example.com''"


text \<open>
  A page of a shop, and its tags as the parser lists them.  The script of the page names
  the three Google identifiers, initializes the Facebook Pixel and tracks three events.
\<close>

definition example_script :: string where
  "example_script =
     ''// cdn.shopify.com GTM-ABC123 G-XYZ7890 AW-12345 ''
     @ ''fbq('' @ single_quoted ''init'' @ '', '' @ single_quoted ''123456'' @ '')''
     @ ''; fbq('' @ single_quoted ''track'' @ '', '' @ single_quoted ''Purchase'' @ ''); ''
     @ ''fbq('' @ single_quoted ''track'' @ '', '' @ double_quoted ''AddToCart'' @ ''); ''
     @ ''fbq('' @ single_quoted ''track'' @ '', '' @ single_quoted ''ViewContent'' @ '');''"

definition example_markup :: string where
  "example_markup =
     ''<title>A shop</title><meta name=viewport content=width=device-width>''
     @ ''<h1>Welcome</h1><img src=a.png alt=A><img src=b.png><script>''
     @ example_script @ ''</script>''"

definition example_soup :: soup where
  "example_soup =
     [\<lparr>name = ''title'', attrs = [], get_text = ''A shop''\<rparr>,
      \<lparr>name = ''meta'', attrs = [(''name'', ''viewport''), (''content'', ''width=device-width'')],
         get_text = []\<rparr>,
      \<lparr>name = ''h1'', attrs = [], get_text = ''Welcome''\<rparr>,
      \<lparr>name = ''img'', attrs = [(''src'', ''a.png''), (''alt'', ''A'')], get_text = []\<rparr>,
      \<lparr>name = ''img'', attrs = [(''src'', ''b.png'')], get_text = []\<rparr>,
      \<lparr>name = ''script'', attrs = [], get_text = example_script\<rparr>]"

text \<open>The analyzer after the crawl of that page.\<close>

definition example_fetched :: analyzer where
  "example_fetched = example_analyzer\<lparr>html := Some example_markup, soup := Some example_soup\<rparr>"

text \<open>A state before the opportunities are generated: a known platform and two SEO issues.\<close>

definition example_before_opportunities :: analyzer where
  "example_before_opportunities =
     example_analyzer\<lparr>results := (results example_analyzer)
       \<lparr>platform := Some ''Gomag'',
        issues := [mk_issue ''error'' ''seo'' Title_tag_lipsa,
                   mk_issue ''warning'' ''seo'' Canonical_URL_lipsa]\<rparr>\<rparr>"


text \<open>A page with one image, whose \<^verbatim>\<open>alt\<close> is one blank.\<close>

definition blank_alt_markup :: string where
  "blank_alt_markup = ''<img src=a.png alt='' @ double_quoted '' '' @ ''>''"

definition blank_alt_soup :: soup where
  "blank_alt_soup = [\<lparr>name = ''img'', attrs = [(''src'', ''a.png''), (''alt'', '' '')], get_text = []\<rparr>]"

definition example_blank_alt :: analyzer where
  "example_blank_alt =
     example_analyzer\<lparr>html := Some blank_alt_markup, soup := Some blank_alt_soup\<rparr>"












section \<open>Lemmas about texts and patterns\<close>

lemma startswith_iff: "startswith s p \<longleftrightarrow> (\<exists>t. s = p @ t)"
  by (induction s p rule: startswith.induct) auto

lemma py_in_iff: "py_in sub s \<longleftrightarrow> (\<exists>pre post. s = pre @ sub @ post)"
proof (induction s)
  case Nil
  then show ?case by auto
next
  case (Cons c cs)
  show ?case
  proof
    assume "py_in sub (c # cs)"
    then consider "startswith (c # cs) sub" | "py_in sub cs" by auto
    then show "\<exists>pre post. c # cs = pre @ sub @ post"
    proof cases
      case 1
      then obtain t where "c # cs = sub @ t" by (auto simp: startswith_iff)
      then have "c # cs = [] @ sub @ t" by simp
      then show ?thesis by blast
    next
      case 2
      then obtain pre post where "cs = pre @ sub @ post" using Cons.IH by blast
      then have "c # cs = (c # pre) @ sub @ post" by simp
      then show ?thesis by blast
    qed
  next
    assume "\<exists>pre post. c # cs = pre @ sub @ post"
    then obtain pre post where e: "c # cs = pre @ sub @ post" by blast
    show "py_in sub (c # cs)"
    proof (cases pre)
      case Nil
      then have "startswith (c # cs) sub" using e by (auto simp: startswith_iff)
      then show ?thesis by simp
    next
      case (Cons x xs)
      then have "cs = xs @ sub @ post" using e by simp
      then have "py_in sub cs" using Cons.IH by blast
      then show ?thesis by simp
    qed
  qed
qed

lemma rmatch_complete: "accepts r m \<Longrightarrow> rmatch r (m @ t) \<noteq> None"
proof (induction r m rule: accepts.induct)
  case (7 g p r x xs)
  from "7.prems" consider "accepts r (x # xs)" | "p x" "accepts (Star g p # r) xs"
    by auto
  then show ?case
  proof cases
    case 1
    then have "rmatch r ((x # xs) @ t) \<noteq> None" by (rule "7.IH"(1))
    then show ?thesis by (auto split: option.splits)
  next
    case 2
    then have "rmatch (Star g p # r) (xs @ t) \<noteq> None" using "7.IH"(2) by simp
    then show ?thesis using 2 by (auto split: option.splits)
  qed
next
  case (6 g p r)
  then have "rmatch r ([] @ t) \<noteq> None" by simp
  then show ?case by (cases t) (auto split: option.splits)
next
  case (9 g p r x xs)
  then have "rmatch (Star g p # r) (xs @ t) \<noteq> None" by simp
  then show ?case using 9 by (auto split: option.splits)
qed auto

lemma findall_from_empty:
  "findall_from grp r 0 s = [] \<Longrightarrow> s = pre @ t \<Longrightarrow> rmatch r t = None"
proof (induction s arbitrary: pre)
  case Nil
  then show ?case by (auto split: option.splits)
next
  case (Cons x xs)
  from Cons.prems(1) have n: "rmatch r (x # xs) = None" and f: "findall_from grp r 0 xs = []"
    by (auto split: option.splits simp: Let_def)
  show ?case
  proof (cases pre)
    case Nil
    then show ?thesis using n Cons.prems(2) by simp
  next
    case (Cons y ys)
    then have "xs = ys @ t" using Cons.prems(2) by simp
    then show ?thesis using Cons.IH[OF f] by blast
  qed
qed

lemma findall_found:
  assumes "h = pre @ m @ post" "accepts r m"
  shows "findall grp r h \<noteq> []"
proof
  assume "findall grp r h = []"
  then have "rmatch r (m @ post) = None"
    using assms(1) by (auto simp: findall_def dest: findall_from_empty)
  then show False using rmatch_complete[OF assms(2)] by blast
qed

lemma detect_found:
  assumes "h = pre @ m @ post" "accepts r m"
  shows "detected (detect grp r h)"
  using findall_found[OF assms] by (simp add: detect_def Let_def)

lemma detect_literal:
  assumes "py_in m h" "accepts r m"
  shows "detected (detect grp r h)"
  using assms detect_found by (auto simp: py_in_iff)

lemma gtm_literal: "accepts gtm_pattern ''GTM-ABC123''"
  by (simp add: gtm_pattern_def upper_or_digit_def)

lemma ga4_literal: "accepts ga4_pattern ''G-XYZ7890''"
  by (simp add: ga4_pattern_def upper_or_digit_def)

lemma gads_literal: "accepts gads_pattern ''AW-12345''"
  by (simp add: gads_pattern_def digit_def)

section \<open>Lemmas about rounding\<close>

lemma binade_bounds_ge1:
  assumes "1 \<le> (x::rat)"
  shows "2 powi binade x \<le> x \<and> x < 2 powi (binade x + 1)"
proof -
  define n where "n = \<lfloor>x\<rfloor>"
  have n: "0 < n" using assms by (simp add: n_def)
  define b where "b = bitlen n"
  have b: "1 \<le> b" using n by (simp add: b_def bitlen_alt_def)
  have bb: "2 ^ nat (b - 1) \<le> n" "n < 2 ^ nat b"
    using bitlen_bounds[OF n] by (simp_all add: b_def)
  have e: "binade x = b - 1" using assms by (simp add: binade_def b_def n_def)
  have "(2::rat) powi (b - 1) = of_int (2 ^ nat (b - 1))"
    using b by (simp add: power_int_def)
  also have "\<dots> \<le> of_int n" using bb(1) by (simp only: of_int_le_iff)
  also have "\<dots> \<le> x" by (simp add: n_def)
  finally have lo: "2 powi (b - 1) \<le> x" .
  have "x < of_int (n + 1)" using floor_correct[of x] by (simp add: n_def)
  also have "\<dots> \<le> of_int (2 ^ nat b)" using bb(2) by (simp only: of_int_le_iff zless_imp_add1_zle)
  also have "\<dots> = 2 powi b" using b by (simp add: power_int_def)
  finally have hi: "x < 2 powi b" .
  show ?thesis using lo hi by (simp add: e)
qed

lemma binade_bounds_lt1:
  assumes "0 < (x::rat)" "x < 1"
  shows "2 powi binade x \<le> x \<and> x < 2 powi (binade x + 1)"
proof -
  define c where "c = \<lceil>1 / x\<rceil>"
  have y: "1 < 1 / x" using assms by simp
  have c: "2 \<le> c" using y unfolding c_def by linarith
  define k where "k = bitlen (c - 1)"
  have c1: "0 < c - 1" using c by simp
  have k: "1 \<le> k" using c1 by (simp add: k_def bitlen_alt_def)
  have bb: "2 ^ nat (k - 1) \<le> c - 1" "c - 1 < 2 ^ nat k"
    using bitlen_bounds[OF c1] by (simp_all add: k_def)
  have e: "binade x = - k" using assms by (simp add: binade_def k_def c_def)
  have "1 / x \<le> of_int c" by (simp add: c_def)
  also have "\<dots> \<le> of_int (2 ^ nat k)" using bb(2) by (simp only: of_int_le_iff)
  finally have "1 / x \<le> 2 ^ nat k" by simp
  then have "inverse (2 ^ nat k) \<le> inverse (1 / x)" using assms by (intro le_imp_inverse_le) simp_all
  then have "inverse (2 ^ nat k) \<le> x" by simp
  moreover have "(2::rat) powi (- k) = inverse (2 ^ nat k)"
  proof -
    have "(2::rat) powi (- k) = inverse (2 powi k)" by (rule power_int_minus)
    also have "\<dots> = inverse (2 ^ nat k)" using k by (simp add: power_int_def)
    finally show ?thesis .
  qed
  ultimately have lo: "2 powi (- k) \<le> x" by simp
  have "of_int (2 ^ nat (k - 1)) \<le> (of_int (c - 1) :: rat)" using bb(1) by (simp only: of_int_le_iff)
  also have "\<dots> < 1 / x" unfolding c_def by linarith
  finally have "2 ^ nat (k - 1) < 1 / x" by simp
  then have "inverse (1 / x) < inverse (2 ^ nat (k - 1))" by (intro less_imp_inverse_less) simp_all
  then have "x < inverse (2 ^ nat (k - 1))" by simp
  moreover have "(2::rat) powi (- k + 1) = inverse (2 ^ nat (k - 1))"
  proof -
    have "(2::rat) powi (- k + 1) = 2 powi (- (k - 1))" by simp
    also have "\<dots> = inverse (2 powi (k - 1))" by (rule power_int_minus)
    also have "\<dots> = inverse (2 ^ nat (k - 1))" using k by (simp add: power_int_def)
    finally show ?thesis .
  qed
  ultimately have hi: "x < 2 powi (- k + 1)" by simp
  show ?thesis using lo hi by (simp add: e)
qed


lemma binade_bounds:
  "0 < (x::rat) \<Longrightarrow> 2 powi binade x \<le> x \<and> x < 2 powi (binade x + 1)"
  using binade_bounds_ge1[of x] binade_bounds_lt1[of x] by (cases "1 \<le> x") auto

lemma powi2_less_iff: "(2::rat) powi a < 2 powi b \<longleftrightarrow> a < b"
proof
  assume l: "(2::rat) powi a < 2 powi b"
  show "a < b"
  proof (rule ccontr)
    assume "\<not> a < b"
    then have "b \<le> a" by simp
    then have "(2::rat) powi b \<le> 2 powi a" by (intro power_int_increasing) simp_all
    with l show False by simp
  qed
next
  assume "a < b"
  then show "(2::rat) powi a < 2 powi b" by (intro power_int_strict_increasing) simp_all
qed
  
lemma binade_unique:
  assumes "(2::rat) powi k \<le> x" "x < 2 powi (k + 1)"
  shows "binade x = k"
proof -
  have "0 < (2::rat) powi k" by simp
  then have x: "0 < x" using assms(1) by linarith
  note b = binade_bounds[OF x]
  have "2 powi k < (2::rat) powi (binade x + 1)" using assms(1) b by linarith
  then have 1: "k < binade x + 1" by (simp add: powi2_less_iff)
  have "2 powi binade x < (2::rat) powi (k + 1)" using assms(2) b by linarith
  then have 2: "binade x < k + 1" by (simp add: powi2_less_iff)
  show ?thesis using 1 2 by simp
qed


lemma py_round_of_int: "py_round (of_int n) = n"
  by (simp add: py_round_def)

lemma py_round_bounds:
  "\<lfloor>x\<rfloor> \<le> py_round x \<and> py_round x \<le> \<lfloor>x\<rfloor> + 1"
  by (simp add: py_round_def Let_def)

lemma py_round_mono:
  assumes "x \<le> y"
  shows "py_round x \<le> py_round y"
proof (cases "\<lfloor>x\<rfloor> = \<lfloor>y\<rfloor>")
  case True
  then show ?thesis using assms
    by (auto simp: py_round_def Let_def)
next
  case False
  then have "\<lfloor>x\<rfloor> + 1 \<le> \<lfloor>y\<rfloor>" using floor_mono[OF assms] by linarith
  then show ?thesis
    using py_round_bounds[of x] py_round_bounds[of y] by linarith
qed

lemma py_round_minus: "py_round (- x) = - py_round x"
proof (cases "x = of_int \<lfloor>x\<rfloor>")
  case True
  then obtain n where "x = of_int n" ..
  then show ?thesis
    using py_round_of_int[of n] py_round_of_int[of "- n"] by simp
next
  case False
  then have c: "\<lceil>x\<rceil> = \<lfloor>x\<rfloor> + 1" by (simp add: ceiling_altdef)
  have f: "\<lfloor>- x\<rfloor> = - \<lfloor>x\<rfloor> - 1" using c by (simp add: ceiling_def)
  show ?thesis using False
    by (auto simp: py_round_def Let_def f)
qed


lemma fl_zero: "fl 0 = 0"
  by (simp add: fl_def)

lemma fl_minus: "fl (- x) = - fl x"
  by (simp add: fl_def Let_def py_round_minus)

lemma powi2_split: "(2::rat) powi (b + 1) = 2 ^ 53 * 2 powi (b - 52)"
proof -
  have "(2::rat) powi (b + 1) = 2 powi (53 + (b - 52))"
    by (rule arg_cong[where f = "\<lambda>k. 2 powi k"]) simp
  also have "\<dots> = 2 powi 53 * 2 powi (b - 52)" by (subst power_int_add) simp_all
  finally show ?thesis by simp
qed

lemma powi2_split': "(2::rat) powi b = 2 ^ 52 * 2 powi (b - 52)"
proof -
  have "(2::rat) powi b = 2 powi (52 + (b - 52))"
    by (rule arg_cong[where f = "\<lambda>k. 2 powi k"]) simp
  also have "\<dots> = 2 powi 52 * 2 powi (b - 52)" by (subst power_int_add) simp_all
  finally show ?thesis by simp
qed

lemma significand_bounds:
  assumes "0 < (x::rat)"
  defines "m \<equiv> py_round (x / 2 powi (binade x - 52))"
  shows "2 ^ 52 \<le> m" "m \<le> 2 ^ 53"
proof -
  let ?s = "(2::rat) powi (binade x - 52)"
  have s: "0 < ?s" by simp
  note b = binade_bounds[OF assms(1)]
  have "2 ^ 52 * ?s \<le> x" using b powi2_split'[of "binade x"] by simp
  then have lo: "2 ^ 52 \<le> x / ?s" using s by (simp add: pos_le_divide_eq)
  have "x < 2 ^ 53 * ?s" using b powi2_split[of "binade x"] by simp
  then have hi: "x / ?s \<le> 2 ^ 53" using s by (simp add: pos_divide_le_eq)
  have "py_round (of_int (2 ^ 52)) \<le> m"
    unfolding m_def using lo by (intro py_round_mono) simp
  then show "2 ^ 52 \<le> m" by (simp only: py_round_of_int)
  have "m \<le> py_round (of_int (2 ^ 53))"
    unfolding m_def using hi by (intro py_round_mono) simp
  then show "m \<le> 2 ^ 53" by (simp only: py_round_of_int)
qed

lemma fl_pos_bounds:
  assumes "0 < (x::rat)"
  shows "2 powi binade x \<le> fl x" "fl x \<le> 2 powi (binade x + 1)"
proof -
  let ?s = "(2::rat) powi (binade x - 52)"
  define m where "m = py_round (x / ?s)"
  have s: "0 < ?s" by simp
  have f: "fl x = of_int m * ?s" using assms by (simp add: fl_def m_def Let_def)
  have m: "2 ^ 52 \<le> m" "m \<le> 2 ^ 53"
    using significand_bounds[OF assms] by (simp_all add: m_def)
  have "(2 ^ 52 :: rat) \<le> of_int m" using m(1) by (metis of_int_le_iff of_int_numeral of_int_power)
  then have "2 ^ 52 * ?s \<le> of_int m * ?s" using s by (simp add: mult_right_mono)
  then show "2 powi binade x \<le> fl x" using powi2_split'[of "binade x"] f by simp
  have "of_int m \<le> (2 ^ 53 :: rat)" using m(2) by (metis of_int_le_iff of_int_numeral of_int_power)
  then have "of_int m * ?s \<le> 2 ^ 53 * ?s" using s by (simp add: mult_right_mono)
  then show "fl x \<le> 2 powi (binade x + 1)" using powi2_split[of "binade x"] f by simp
qed

lemma binade_mono:
  assumes "0 < (x::rat)" "x \<le> y"
  shows "binade x \<le> binade y"
proof -
  have y: "0 < y" using assms by simp
  have "(2::rat) powi binade x < 2 powi (binade y + 1)"
    using binade_bounds[OF assms(1)] binade_bounds[OF y] assms(2) by linarith
  then show ?thesis by (simp add: powi2_less_iff)
qed

lemma fl_mono_pos:
  assumes "0 < (x::rat)" "x \<le> y"
  shows "fl x \<le> fl y"
proof (cases "binade x = binade y")
  case True
  have y: "0 < y" using assms by simp
  let ?s = "(2::rat) powi (binade y - 52)"
  have s: "0 < ?s" by simp
  have "x / ?s \<le> y / ?s" using assms(2) s by (simp add: divide_right_mono)
  then have "py_round (x / ?s) \<le> py_round (y / ?s)"
    by (rule py_round_mono)
  then have "(of_int (py_round (x / ?s)) :: rat) \<le> of_int (py_round (y / ?s))"
    by simp
  then have "of_int (py_round (x / ?s)) * ?s \<le> of_int (py_round (y / ?s)) * ?s"
    using s by (simp add: mult_right_mono)
  then show ?thesis using assms y True by (simp add: fl_def Let_def)
next
  case False
  have y: "0 < y" using assms by simp
  have "binade x + 1 \<le> binade y" using False binade_mono[OF assms] by simp
  then have "(2::rat) powi (binade x + 1) \<le> 2 powi binade y"
    by (intro power_int_increasing) simp_all
  then show ?thesis using fl_pos_bounds(2)[OF assms(1)] fl_pos_bounds(1)[OF y] by linarith
qed

lemma fl_nonneg: "0 \<le> (x::rat) \<Longrightarrow> 0 \<le> fl x"
proof (cases "x = 0")
  case True then show ?thesis by (simp add: fl_zero)
next
  case False
  assume "0 \<le> x"
  with False have x: "0 < x" by simp
  have "0 < (2::rat) powi binade x" by simp
  then show ?thesis using fl_pos_bounds(1)[OF x] by linarith
qed

lemma fl_mono: "0 \<le> (x::rat) \<Longrightarrow> x \<le> y \<Longrightarrow> fl x \<le> fl y"
  using fl_mono_pos[of x y] fl_nonneg[of y] by (cases "x = 0") (auto simp: fl_zero)


lemma fl_representable:
  assumes "2 ^ 52 \<le> m" "m < 2 ^ 53"
  shows "fl (of_int m * 2 powi e) = of_int m * 2 powi e"
proof -
  let ?s = "(2::rat) powi e"
  let ?v = "of_int m * ?s"
  have s: "0 < ?s" by simp
  have m0: "0 < m" using assms(1) by (smt (verit) zero_less_power)
  have v: "0 < ?v" using m0 s by simp
  have "(2 ^ 52 :: rat) \<le> of_int m" using assms(1) by (metis of_int_le_iff of_int_numeral of_int_power)
  then have "2 ^ 52 * ?s \<le> ?v" using s by (simp add: mult_right_mono)
  then have lo: "2 powi (e + 52) \<le> ?v" using powi2_split'[of "e + 52"] by simp
  have "of_int m < (2 ^ 53 :: rat)" using assms(2) by (metis of_int_less_iff of_int_numeral of_int_power)
  then have "?v < 2 ^ 53 * ?s" using s by (simp add: mult_strict_right_mono)
  then have hi: "?v < 2 powi (e + 52 + 1)" using powi2_split[of "e + 52"] by simp
  have b: "binade ?v = e + 52" using lo hi by (rule binade_unique)
  have "\<bar>?v\<bar> = ?v" using v by simp
  then show ?thesis using v b by (simp add: fl_def Let_def py_round_of_int)
qed

lemma fl_powi2: "fl (2 powi k) = 2 powi k"
  using fl_representable[of "2 ^ 52" "k - 52"] powi2_split'[of k] by simp

lemma fl_idem_pos:
  assumes "0 < (x::rat)"
  shows "fl (fl x) = fl x"
proof -
  let ?s = "(2::rat) powi (binade x - 52)"
  define m where "m = py_round (x / ?s)"
  have f: "fl x = of_int m * ?s" using assms by (simp add: fl_def m_def Let_def)
  have m: "2 ^ 52 \<le> m" "m \<le> 2 ^ 53"
    using significand_bounds[OF assms] by (simp_all add: m_def)
  show ?thesis
  proof (cases "m = 2 ^ 53")
    case True
    then have "fl x = 2 powi (binade x + 1)" using f powi2_split[of "binade x"] by simp
    then show ?thesis by (simp add: fl_powi2)
  next
    case False
    then have "m < 2 ^ 53" using m(2) by simp
    then show ?thesis using fl_representable[OF m(1), of "binade x - 52"] f by simp
  qed
qed

lemma fl_idem: "fl (fl x) = fl x"
proof -
  consider "x = 0" | "0 < x" | "x < 0" by linarith
  then show ?thesis
  proof cases
    case 1 then show ?thesis by (simp add: fl_zero)
  next
    case 2 then show ?thesis by (rule fl_idem_pos)
  next
    case 3
    then have "fl (fl (- x)) = fl (- x)" by (intro fl_idem_pos) simp
    then show ?thesis by (simp add: fl_minus)
  qed
qed


section \<open>Properties of the scores\<close>

lemma float_add_zero: "float_add (float_of_int 0) (float_mul x y) = float_mul x y"
  by (simp add: float_add_def float_of_int_def float_mul_def fl_zero fl_idem)

lemma map_of_update: "map_of (AList.update k v al) k' = (if k' = k then Some v else map_of al k')"
  by (simp add: update_conv')

lemma weighted_sum_eq:
  "weighted_sum sc =
     float_add (float_add (float_add
       (float_mul (float_of_int (get_score sc ''seo'' 50)) (float_literal (30 / 100)))
       (float_mul (float_of_int (get_score sc ''tracking'' 50)) (float_literal (35 / 100))))
       (float_mul (float_of_int (get_score sc ''technical'' 50)) (float_literal (20 / 100))))
       (float_mul (float_of_int (get_score sc ''meta_ads'' 50)) (float_literal (15 / 100)))"
  by (simp add: weighted_sum_def weights_def py_sum_def float_add_zero)



lemma float_of_int_range:
  assumes "0 \<le> s" "s \<le> 100"
  shows "0 \<le> float_of_int s" "float_of_int s \<le> 100"
proof -
  have "(0::rat) \<le> of_int s" using assms by simp
  then show "0 \<le> float_of_int s" unfolding float_of_int_def by (rule fl_nonneg)
  have h: "fl 100 = 100" by code_simp
  have "fl (of_int s) \<le> fl 100" using assms by (intro fl_mono) simp_all
  then show "float_of_int s \<le> 100" by (simp add: float_of_int_def h)
qed

lemma float_mul_range:
  assumes "0 \<le> x" "x \<le> 100" "0 \<le> w" "fl (100 * w) = b"
  shows "0 \<le> float_mul x w" "float_mul x w \<le> b"
proof -
  have n: "0 \<le> x * w" using assms by simp
  then show "0 \<le> float_mul x w" unfolding float_mul_def by (rule fl_nonneg)
  have "x * w \<le> 100 * w" using assms by (simp add: mult_right_mono)
  then have "fl (x * w) \<le> fl (100 * w)" using n by (intro fl_mono)
  then show "float_mul x w \<le> b" using assms(4) by (simp add: float_mul_def)
qed

lemma float_add_range:
  assumes "0 \<le> x" "x \<le> bx" "0 \<le> y" "y \<le> by" "fl (bx + by) = b"
  shows "0 \<le> float_add x y" "float_add x y \<le> b"
proof -
  have n: "0 \<le> x + y" using assms by simp
  then show "0 \<le> float_add x y" unfolding float_add_def by (rule fl_nonneg)
  have "x + y \<le> bx + by" using assms by simp
  then have "fl (x + y) \<le> fl (bx + by)" using n by (intro fl_mono)
  then show "float_add x y \<le> b" using assms(5) by (simp add: float_add_def)
qed

lemma weight_facts:
  "0 \<le> float_literal (30 / 100)" "fl (100 * float_literal (30 / 100)) = 30"
  "0 \<le> float_literal (35 / 100)" "fl (100 * float_literal (35 / 100)) = 35"
  "0 \<le> float_literal (20 / 100)" "fl (100 * float_literal (20 / 100)) = 20"
  "0 \<le> float_literal (15 / 100)" "fl (100 * float_literal (15 / 100)) = 15"
  "fl (30 + 35) = 65" "fl (65 + 20) = 85" "fl (85 + 15) = 100"
  by code_simp+

lemma py_round_range:
  assumes "0 \<le> x" "x \<le> 100"
  shows "0 \<le> py_round x" "py_round x \<le> 100"
proof -
  have "py_round (of_int 0) \<le> py_round x" using assms by (intro py_round_mono) simp
  then show "0 \<le> py_round x" by (simp only: py_round_of_int)
  have "py_round x \<le> py_round (of_int 100)" using assms by (intro py_round_mono) simp
  then show "py_round x \<le> 100" by (simp only: py_round_of_int)
qed

lemma overall_in_range:
  assumes "0 \<le> get_score sc ''seo'' 50" "get_score sc ''seo'' 50 \<le> 100"
    "0 \<le> get_score sc ''tracking'' 50" "get_score sc ''tracking'' 50 \<le> 100"
    "0 \<le> get_score sc ''technical'' 50" "get_score sc ''technical'' 50 \<le> 100"
    "0 \<le> get_score sc ''meta_ads'' 50" "get_score sc ''meta_ads'' 50 \<le> 100"
  shows "0 \<le> py_round (weighted_sum sc) \<and> py_round (weighted_sum sc) \<le> 100"
proof -
  note f1 = float_of_int_range[OF assms(1,2)]
  note f2 = float_of_int_range[OF assms(3,4)]
  note f3 = float_of_int_range[OF assms(5,6)]
  note f4 = float_of_int_range[OF assms(7,8)]
  note p1 = float_mul_range[OF f1 weight_facts(1,2)]
  note p2 = float_mul_range[OF f2 weight_facts(3,4)]
  note p3 = float_mul_range[OF f3 weight_facts(5,6)]
  note p4 = float_mul_range[OF f4 weight_facts(7,8)]
  note s1 = float_add_range[OF p1 p2 weight_facts(9)]
  note s2 = float_add_range[OF s1 p3 weight_facts(10)]
  note s3 = float_add_range[OF s2 p4 weight_facts(11)]
  show ?thesis using py_round_range[OF s3] by (simp add: weighted_sum_eq)
qed

lemma clamp_range: "0 \<le> max 0 (min 100 (x::int)) \<and> max 0 (min 100 x) \<le> 100"
  by simp

lemma update_nonempty: "AList.update k v al \<noteq> []"
  by (cases al) auto

lemma get_score_update:
  "get_score (AList.update k v al) k' d = (if k' = k then v else get_score al k' d)"
  by (simp add: get_score_def map_of_update)

lemma detect_platform_fields:
  "html (fst (detect_platform a)) = html a"
  "soup (fst (detect_platform a)) = soup a"
  "scores (results (fst (detect_platform a))) = scores (results a)"
  by (simp_all add: detect_platform_def Let_def split: option.splits)

lemma analyze_seo_scores:
  assumes "soup a = Some sp"
  obtains a' s where "analyze_seo a = Inr a'" "html a' = html a" "soup a' = soup a"
    "scores (results a') = AList.update ''seo'' s (scores (results a))" "0 \<le> s" "s \<le> 100"
proof -
  define s where "s = max 0 (min 100 (deduct ''seo'' 15 8 100 (seo_issues sp)))"
  define a' where "a' = a\<lparr>results := set_score ''seo'' s
      ((results a)\<lparr>seo := Some (seo_of sp), issues := issues (results a) @ seo_issues sp\<rparr>)\<rparr>"
  have 1: "analyze_seo a = Inr a'"
    using assms by (simp add: analyze_seo_def Let_def s_def a'_def)
  have 2: "html a' = html a" "soup a' = soup a"
    "scores (results a') = AList.update ''seo'' s (scores (results a))"
    by (simp_all add: a'_def set_score_def)
  have 3: "0 \<le> s" "s \<le> 100" by (simp_all add: s_def)
  show thesis using that[OF 1 2 3] .
qed

lemma analyze_tracking_scores:
  assumes "html a = Some h"
  obtains a' s where "analyze_tracking a = Inr a'" "html a' = html a" "soup a' = soup a"
    "scores (results a') = AList.update ''tracking'' s (scores (results a))" "0 \<le> s" "s \<le> 100"
proof -
  define s where "s = max 0 (min 100 (deduct ''tracking'' 18 10 100 (tracking_issues h)))"
  define a' where "a' = a\<lparr>results := set_score ''tracking'' s
      ((results a)\<lparr>tracking := Some (tracking_of h),
                   issues := issues (results a) @ tracking_issues h\<rparr>)\<rparr>"
  have 1: "analyze_tracking a = Inr a'"
    using assms by (simp add: analyze_tracking_def Let_def s_def a'_def)
  have 2: "html a' = html a" "soup a' = soup a"
    "scores (results a') = AList.update ''tracking'' s (scores (results a))"
    by (simp_all add: a'_def set_score_def)
  have 3: "0 \<le> s" "s \<le> 100" by (simp_all add: s_def)
  show thesis using that[OF 1 2 3] .
qed

lemma analyze_technical_scores:
  assumes "soup a = Some sp" "html a = Some h"
  obtains a' s where "analyze_technical a = Inr a'"
    "scores (results a') = AList.update ''technical'' s (scores (results a))" "0 \<le> s" "s \<le> 100"
proof -
  define found where "found = technical_issues (self_url a) (self_domain a) sp h"
  define s where "s = max 0 (min 100 (deduct ''technical'' 15 8 100 found))"
  define a' where "a' = a\<lparr>results := set_score ''technical'' s
      ((results a)\<lparr>technical := Some (technical_of (self_url a) (self_domain a) sp h),
                   issues := issues (results a) @ found\<rparr>)\<rparr>"
  have 1: "analyze_technical a = Inr a'"
    using assms by (simp add: analyze_technical_def Let_def s_def a'_def found_def)
  have 2: "scores (results a') = AList.update ''technical'' s (scores (results a))"
    by (simp add: a'_def set_score_def)
  have 3: "0 \<le> s" "s \<le> 100" by (simp_all add: s_def)
  show thesis using that[OF 1 2 3] .
qed

lemma meta_ads_scores:
  obtains m where
    "scores (results (check_meta_ads_library a)) = AList.update ''meta_ads'' m (scores (results a))"
    "0 \<le> m" "m \<le> 100"
proof -
  define m :: int where "m = (if has_fb_pixel (results a) then 70 else 40)"
  have 1: "scores (results (check_meta_ads_library a)) =
             AList.update ''meta_ads'' m (scores (results a))"
    by (simp add: check_meta_ads_library_def Let_def set_score_def m_def)
  have 2: "0 \<le> m" "m \<le> 100" by (simp_all add: m_def)
  show thesis using that[OF 1 2] .
qed

lemma overall_scores:
  "scores (results a) \<noteq> [] \<Longrightarrow>
   scores (results (calculate_overall_score a)) =
     AList.update ''overall'' (py_round (weighted_sum (scores (results a)))) (scores (results a))"
  by (simp add: calculate_overall_score_def Let_def set_score_def)

lemma opportunities_scores:
  "scores (results (generate_opportunities a)) = scores (results a)"
  by (simp add: generate_opportunities_def Let_def)

lemma pipeline_scores:
  assumes "requests_get (self_url a) = Fetched body" "parser body = Inr sp"
  obtains r s tr t m where
    "run_full_analysis requests_get parser a = Inr r"
    "scores r =
       AList.update ''overall''
         (py_round (weighted_sum
            (AList.update ''meta_ads'' m (AList.update ''technical'' t
               (AList.update ''tracking'' tr (AList.update ''seo'' s (scores (results a))))))))
         (AList.update ''meta_ads'' m (AList.update ''technical'' t
            (AList.update ''tracking'' tr (AList.update ''seo'' s (scores (results a))))))"
    "0 \<le> s" "s \<le> 100" "0 \<le> tr" "tr \<le> 100" "0 \<le> t" "t \<le> 100" "0 \<le> m" "m \<le> 100"
proof -
  define a0 where "a0 = a\<lparr>html := Some body, soup := Some sp\<rparr>"
  have c: "crawl requests_get parser a = (a0, True)"
    using assms by (simp add: crawl_def a0_def)
  define a1 where "a1 = fst (detect_platform a0)"
  have a1: "soup a1 = Some sp" "html a1 = Some body" "scores (results a1) = scores (results a)"
    by (simp_all add: a1_def detect_platform_fields a0_def)
  obtain a2 s where a2: "analyze_seo a1 = Inr a2" "html a2 = html a1" "soup a2 = soup a1"
    "scores (results a2) = AList.update ''seo'' s (scores (results a1))" "0 \<le> s" "s \<le> 100"
    using analyze_seo_scores[OF a1(1)] by blast
  have h2: "html a2 = Some body" "soup a2 = Some sp" using a2(2,3) a1 by simp_all
  obtain a3 tr where a3: "analyze_tracking a2 = Inr a3" "html a3 = html a2" "soup a3 = soup a2"
    "scores (results a3) = AList.update ''tracking'' tr (scores (results a2))"
    "0 \<le> tr" "tr \<le> 100"
    using analyze_tracking_scores[OF h2(1)] by blast
  have h3: "soup a3 = Some sp" "html a3 = Some body" using a3(2,3) h2 by simp_all
  obtain a4 t where a4: "analyze_technical a3 = Inr a4"
    "scores (results a4) = AList.update ''technical'' t (scores (results a3))" "0 \<le> t" "t \<le> 100"
    using analyze_technical_scores[OF h3] by blast
  obtain m where m: "scores (results (check_meta_ads_library a4)) =
      AList.update ''meta_ads'' m (scores (results a4))" "0 \<le> m" "m \<le> 100"
    using meta_ads_scores[of a4] by blast
  have ne: "scores (results (check_meta_ads_library a4)) \<noteq> []"
    by (simp only: m(1) update_nonempty not_False_eq_True)
  have r: "run_full_analysis requests_get parser a =
     Inr (results (generate_opportunities (calculate_overall_score (check_meta_ads_library a4))))"
    by (simp add: run_full_analysis_def c a1_def[symmetric] a2(1) a3(1) a4(1))
  have sc: "scores (results (generate_opportunities (calculate_overall_score
               (check_meta_ads_library a4)))) =
       AList.update ''overall''
         (py_round (weighted_sum
            (AList.update ''meta_ads'' m (AList.update ''technical'' t
               (AList.update ''tracking'' tr (AList.update ''seo'' s (scores (results a))))))))
         (AList.update ''meta_ads'' m (AList.update ''technical'' t
            (AList.update ''tracking'' tr (AList.update ''seo'' s (scores (results a))))))"
    by (simp only: opportunities_scores overall_scores[OF ne] m(1) a4(2) a3(4) a2(4) a1(3))
  show thesis
    using that[OF r sc a2(5,6) a3(5,6) a4(3,4) m(2,3)] .
qed


text \<open>
  Claim C2.  When the document is fetched and parsed, the full analysis returns a result in
  which the four category scores and the overall score are present and lie between 0 and 100.
\<close>

theorem scores_in_range:
  assumes "requests_get (self_url a) = Fetched body" "parser body = Inr sp"
  shows "\<exists>r v1 v2 v3 v4 v5.
     run_full_analysis requests_get parser a = Inr r
     \<and> map_of (scores r) ''seo'' = Some v1 \<and> 0 \<le> v1 \<and> v1 \<le> 100
     \<and> map_of (scores r) ''tracking'' = Some v2 \<and> 0 \<le> v2 \<and> v2 \<le> 100
     \<and> map_of (scores r) ''technical'' = Some v3 \<and> 0 \<le> v3 \<and> v3 \<le> 100
     \<and> map_of (scores r) ''meta_ads'' = Some v4 \<and> 0 \<le> v4 \<and> v4 \<le> 100
     \<and> map_of (scores r) ''overall'' = Some v5 \<and> 0 \<le> v5 \<and> v5 \<le> 100"
proof -
  obtain r s tr t m where p:
    "run_full_analysis requests_get parser a = Inr r"
    "scores r =
       AList.update ''overall''
         (py_round (weighted_sum
            (AList.update ''meta_ads'' m (AList.update ''technical'' t
               (AList.update ''tracking'' tr (AList.update ''seo'' s (scores (results a))))))))
         (AList.update ''meta_ads'' m (AList.update ''technical'' t
            (AList.update ''tracking'' tr (AList.update ''seo'' s (scores (results a))))))"
    "0 \<le> s" "s \<le> 100" "0 \<le> tr" "tr \<le> 100" "0 \<le> t" "t \<le> 100" "0 \<le> m" "m \<le> 100"
    by (rule pipeline_scores[where requests_get = requests_get and parser = parser
          and a = a and body = body and sp = sp, OF assms])
  define sc where "sc = AList.update ''meta_ads'' m (AList.update ''technical'' t
            (AList.update ''tracking'' tr (AList.update ''seo'' s (scores (results a)))))"
  have g: "get_score sc ''seo'' 50 = s" "get_score sc ''tracking'' 50 = tr"
    "get_score sc ''technical'' 50 = t" "get_score sc ''meta_ads'' 50 = m"
    by (simp_all add: sc_def get_score_update)
  have o: "0 \<le> py_round (weighted_sum sc) \<and> py_round (weighted_sum sc) \<le> 100"
    by (rule overall_in_range) (simp_all only: g p)
  have q: "scores r = AList.update ''overall'' (py_round (weighted_sum sc)) sc"
    using p(2) by (simp only: sc_def)
  have m1: "map_of (scores r) ''seo'' = Some s" "map_of (scores r) ''tracking'' = Some tr"
    "map_of (scores r) ''technical'' = Some t" "map_of (scores r) ''meta_ads'' = Some m"
    "map_of (scores r) ''overall'' = Some (py_round (weighted_sum sc))"
    by (simp_all add: q sc_def map_of_update)
  show ?thesis using p(1) m1 o p(3-10) by blast
qed

text \<open>A fetched and parsed example: the hypotheses hold and the result is as stated.\<close>

theorem scores_in_range_witness:
  "\<exists>r v1 v2 v3 v4 v5.
     run_full_analysis (\<lambda>u. Fetched example_markup) (\<lambda>t. Inr example_soup) example_analyzer = Inr r
     \<and> map_of (scores r) ''seo'' = Some v1 \<and> 0 \<le> v1 \<and> v1 \<le> 100
     \<and> map_of (scores r) ''tracking'' = Some v2 \<and> 0 \<le> v2 \<and> v2 \<le> 100
     \<and> map_of (scores r) ''technical'' = Some v3 \<and> 0 \<le> v3 \<and> v3 \<le> 100
     \<and> map_of (scores r) ''meta_ads'' = Some v4 \<and> 0 \<le> v4 \<and> v4 \<le> 100
     \<and> map_of (scores r) ''overall'' = Some v5 \<and> 0 \<le> v5 \<and> v5 \<le> 100"
  by (rule scores_in_range[where body = example_markup and sp = example_soup]) simp_all


section \<open>Properties of the platform detection\<close>








section \<open>The analysis after a failed fetch\<close>

text \<open>
  Claim C5.  When the fetch fails, the full analysis of a new analyzer returns a result (no
  exception escapes) whose error field is the description of the failure; no analyzer has
  run: there is no platform and there are no findings, and the scores, the issues and the
  opportunities are empty.
\<close>

theorem fetch_failure:
  assumes "requests_get (target_url u) = Failed msg"
  shows "run_full_analysis requests_get parser (init netloc u) =
     Inr \<lparr>url = target_url u, domain = netloc (target_url u), platform = None, seo = None,
          technical = None, tracking = None, meta_ads = None, scores = [], issues = [],
          opportunities = [], error = Some msg\<rparr>"
  using assms by (simp add: run_full_analysis_def crawl_def init_def Let_def)

text \<open>A connection that is refused, for the analyzer of \<^verbatim>\<open>example.com\<close>.\<close>

theorem fetch_failure_witness:
  "run_full_analysis (\<lambda>u. Failed ''Connection refused'') (\<lambda>t. Inr example_soup)
     (init url_host ''example.com'') =
   Inr \<lparr>url = ''https://example.com'', domain = ''example.com'', platform = None, seo = None,
        technical = None, tracking = None, meta_ads = None, scores = [], issues = [],
        opportunities = [], error = Some ''Connection refused''\<rparr>"
proof -
  have t: "target_url ''example.com'' = ''https://example.com''"
    by (simp add: target_url_def)
  have h: "url_host ''https://example.com'' = ''example.com''"
    by (simp add: url_host_def)
  show ?thesis
    using fetch_failure[of "\<lambda>u. Failed ''Connection refused''" "''example.com''"
        "''Connection refused''" "\<lambda>t. Inr example_soup" url_host]
    by (simp add: t h)
qed

section \<open>Properties of the tracking analyzer\<close>

lemma new_issues_append:
  "issues (results a') = issues (results a) @ found \<Longrightarrow> new_issues a a' = found"
  by (simp add: new_issues_def)

lemma analyze_tracking_result:
  assumes "html a = Some h"
  obtains a' where "analyze_tracking a = Inr a'" "new_issues a a' = tracking_issues h"
    "map_of (scores (results a')) ''tracking'' =
       Some (max 0 (min 100 (deduct ''tracking'' 18 10 100 (tracking_issues h))))"
proof -
  define a' where "a' = a\<lparr>results := set_score ''tracking''
      (max 0 (min 100 (deduct ''tracking'' 18 10 100 (tracking_issues h))))
      ((results a)\<lparr>tracking := Some (tracking_of h),
                   issues := issues (results a) @ tracking_issues h\<rparr>)\<rparr>"
  have 1: "analyze_tracking a = Inr a'"
    using assms by (simp add: analyze_tracking_def Let_def a'_def)
  have "issues (results a') = issues (results a) @ tracking_issues h"
    by (simp add: a'_def set_score_def)
  then have 2: "new_issues a a' = tracking_issues h" by (rule new_issues_append)
  have 3: "map_of (scores (results a')) ''tracking'' =
       Some (max 0 (min 100 (deduct ''tracking'' 18 10 100 (tracking_issues h))))"
    by (simp add: a'_def set_score_def map_of_update)
  show thesis using that[OF 1 2 3] .
qed

lemma tracking_issues_all_detected:
  assumes "py_in ''GTM-ABC123'' h" "py_in ''G-XYZ7890'' h" "py_in ''AW-12345'' h"
    and "h = pre @ call @ post" "accepts fb_pixel_pattern call"
  shows "tracking_issues h =
     (if length (fb_events_of h) < 3
      then [mk_issue ''warning'' ''tracking''
              (Facebook_Pixel_incomplet_configurat (length (fb_events_of h)) (fb_events_of h))]
      else [])"
proof -
  have 1: "detected (detect False gtm_pattern h)"
    using assms(1) gtm_literal by (rule detect_literal)
  have 2: "detected (detect False ga4_pattern h)"
    using assms(2) ga4_literal by (rule detect_literal)
  have 3: "detected (detect False gads_pattern h)"
    using assms(3) gads_literal by (rule detect_literal)
  have 4: "detected (detect True fb_pixel_pattern h)"
    using assms(4,5) by (rule detect_found)
  show ?thesis
    by (simp add: tracking_issues_def tracking_of_def Let_def 1 2 3 4)
qed

lemma tracking_all_detected:
  assumes "html a = Some h"
    and "py_in ''GTM-ABC123'' h" "py_in ''G-XYZ7890'' h" "py_in ''AW-12345'' h"
    and "h = pre @ call @ post" "accepts fb_pixel_pattern call"
  shows "\<exists>a'. analyze_tracking a = Inr a'
     \<and> new_issues a a' =
         (if length (fb_events_of h) < 3
          then [mk_issue ''warning'' ''tracking''
                  (Facebook_Pixel_incomplet_configurat (length (fb_events_of h)) (fb_events_of h))]
          else [])
     \<and> map_of (scores (results a')) ''tracking'' =
         Some (if length (fb_events_of h) < 3 then 90 else 100)"
proof -
  obtain a' where a': "analyze_tracking a = Inr a'" "new_issues a a' = tracking_issues h"
    "map_of (scores (results a')) ''tracking'' =
       Some (max 0 (min 100 (deduct ''tracking'' 18 10 100 (tracking_issues h))))"
    using analyze_tracking_result[OF assms(1)] by blast
  note t = tracking_issues_all_detected[OF assms(2-6)]
  have "max 0 (min 100 (deduct ''tracking'' 18 10 100 (tracking_issues h))) =
          (if length (fb_events_of h) < 3 then 90 else 100)"
    by (simp add: t mk_issue_def)
  then show ?thesis using a' t by simp
qed

text \<open>
  Claim C3, as amended.  For a document that contains \<^verbatim>\<open>GTM-ABC123\<close>, \<^verbatim>\<open>G-XYZ7890\<close>,
  \<^verbatim>\<open>AW-12345\<close> and a Facebook Pixel init call, the tracking analyzer emits no tracking
  error.  When three or more of the five named events occur, in particular exactly three,
  it emits no warning either and the tracking score is 100; the warning for incomplete
  events and the score 90 arise when fewer than three of the events occur.
\<close>

theorem tracking_three_events:
  assumes "html a = Some h"
    and "py_in ''GTM-ABC123'' h" "py_in ''G-XYZ7890'' h" "py_in ''AW-12345'' h"
    and "h = pre @ call @ post" "accepts fb_pixel_pattern call"
  shows "\<exists>a'. analyze_tracking a = Inr a'
     \<and> new_issues a a' =
         (if length (fb_events_of h) < 3
          then [mk_issue ''warning'' ''tracking''
                  (Facebook_Pixel_incomplet_configurat (length (fb_events_of h)) (fb_events_of h))]
          else [])
     \<and> map_of (scores (results a')) ''tracking'' =
         Some (if length (fb_events_of h) < 3 then 90 else 100)"
  using assms by (rule tracking_all_detected)

lemma example_markup_split:
  "example_markup =
     (''<title>A shop</title><meta name=viewport content=width=device-width>''
      @ ''<h1>Welcome</h1><img src=a.png alt=A><img src=b.png><script>''
      @ ''// cdn.shopify.com GTM-ABC123 G-XYZ7890 AW-12345 '')
     @ (''fbq('' @ single_quoted ''init'' @ '', '' @ single_quoted ''123456'' @ '')'')
     @ (''; fbq('' @ single_quoted ''track'' @ '', '' @ single_quoted ''Purchase'' @ ''); ''
        @ ''fbq('' @ single_quoted ''track'' @ '', '' @ double_quoted ''AddToCart'' @ ''); ''
        @ ''fbq('' @ single_quoted ''track'' @ '', '' @ single_quoted ''ViewContent'' @ '');''
        @ ''</script>'')"
  by (simp add: example_markup_def example_script_def)

lemma example_call:
  "accepts fb_pixel_pattern
     (''fbq('' @ single_quoted ''init'' @ '', '' @ single_quoted ''123456'' @ '')'')"
  by code_simp

lemma example_literals:
  "py_in ''GTM-ABC123'' example_markup" "py_in ''G-XYZ7890'' example_markup"
  "py_in ''AW-12345'' example_markup"
  by code_simp+

lemma example_events:
  "fb_events_of example_markup = [''Purchase'', ''AddToCart'', ''ViewContent'']"
  by code_simp

text \<open>
  The example page has the three identifiers, an init call and exactly three of the events
  (two in single quotes, one in double quotes): no issue is emitted and the score is 100.
\<close>

theorem tracking_three_events_witness:
  "length (fb_events_of example_markup) = 3
   \<and> (\<exists>a'. analyze_tracking example_fetched = Inr a'
         \<and> new_issues example_fetched a' = []
         \<and> map_of (scores (results a')) ''tracking'' = Some 100)"
proof -
  have h: "html example_fetched = Some example_markup"
    by (simp add: example_fetched_def)
  show ?thesis
    using tracking_three_events[OF h example_literals example_markup_split example_call]
    by (simp add: example_events)
qed

text \<open>
  Against claim C3 as stated: the document of the claim, with exactly three events, gets no
  warning and the score 100, not one warning and the score 90.
\<close>

theorem tracking_three_events_counterexample:
  "py_in ''GTM-ABC123'' example_markup \<and> py_in ''G-XYZ7890'' example_markup
   \<and> py_in ''AW-12345'' example_markup
   \<and> (\<exists>pre call post. example_markup = pre @ call @ post \<and> accepts fb_pixel_pattern call)
   \<and> length (fb_events_of example_markup) = 3
   \<and> (\<exists>a'. analyze_tracking example_fetched = Inr a'
         \<and> filter (\<lambda>i. type i = ''warning'') (new_issues example_fetched a') = []
         \<and> map_of (scores (results a')) ''tracking'' = Some 100
         \<and> map_of (scores (results a')) ''tracking'' \<noteq> Some 90)"
proof -
  have h: "html example_fetched = Some example_markup"
    by (simp add: example_fetched_def)
  have c: "\<exists>pre call post. example_markup = pre @ call @ post \<and> accepts fb_pixel_pattern call"
    using example_markup_split example_call by blast
  obtain a' where a': "analyze_tracking example_fetched = Inr a'"
    "new_issues example_fetched a' = []"
    "map_of (scores (results a')) ''tracking'' = Some 100"
    using tracking_all_detected[OF h example_literals example_markup_split example_call]
    by (auto simp: example_events)
  have "filter (\<lambda>i. type i = ''warning'') (new_issues example_fetched a') = []"
    "map_of (scores (results a')) ''tracking'' \<noteq> Some 90"
    using a' by simp_all
  then show ?thesis using a' example_literals c example_events by auto
qed


section \<open>Properties of the SEO analyzer\<close>

lemma analyze_seo_result:
  assumes "soup a = Some sp"
  obtains a' where "analyze_seo a = Inr a'" "new_issues a a' = seo_issues sp"
    "seo (results a') = Some (seo_of sp)"
proof -
  define a' where "a' = a\<lparr>results := set_score ''seo''
      (max 0 (min 100 (deduct ''seo'' 15 8 100 (seo_issues sp))))
      ((results a)\<lparr>seo := Some (seo_of sp), issues := issues (results a) @ seo_issues sp\<rparr>)\<rparr>"
  have 1: "analyze_seo a = Inr a'"
    using assms by (simp add: analyze_seo_def Let_def a'_def)
  have "issues (results a') = issues (results a) @ seo_issues sp"
    by (simp add: a'_def set_score_def)
  then have 2: "new_issues a a' = seo_issues sp" by (rule new_issues_append)
  have 3: "seo (results a') = Some (seo_of sp)" by (simp add: a'_def set_score_def)
  show thesis using that[OF 1 2 3] .
qed

lemma strip_Nil: "strip [] = []"
  by (simp add: strip_def)

lemma without_alt_blank: "without_alt img = blank_alt img"
  by (cases "tag_get img ''alt''") (auto simp: without_alt_def blank_alt_def falsy_def strip_Nil)

lemma alt_issue_blocks:
  "filter is_alt_issue (title_issues sp) = []"
  "filter is_alt_issue (meta_description_issues sp) = []"
  "filter is_alt_issue (h1_issues sp) = []"
  "filter is_alt_issue (image_issues sp) = image_issues sp"
  "filter is_alt_issue (canonical_issues sp) = []"
  "filter is_alt_issue (og_issues sp) = []"
  "filter is_alt_issue (structured_data_issues sp) = []"
  by (simp_all add: title_issues_def meta_description_issues_def h1_issues_def image_issues_def
      canonical_issues_def og_issues_def structured_data_issues_def is_alt_issue_def mk_issue_def
      Let_def)

lemma alt_issues_of_seo: "filter is_alt_issue (seo_issues sp) = image_issues sp"
  by (simp add: seo_issues_def alt_issue_blocks)

lemma image_issues_blank:
  "image_issues sp =
     (if \<exists>img\<in>set (find_all sp ''img''). blank_alt img
      then [mk_issue
              (if 50 \<le> missing_alt_pct (length (filter blank_alt (find_all sp ''img'')))
                         (length (find_all sp ''img''))
               then ''error'' else ''warning'')
              ''seo''
              (Imagini_fara_ALT (length (filter blank_alt (find_all sp ''img'')))
                 (missing_alt_pct (length (filter blank_alt (find_all sp ''img'')))
                    (length (find_all sp ''img''))))]
      else [])"
proof -
  have w: "without_alt = blank_alt" by (rule ext) (rule without_alt_blank)
  have e: "(0 < length (filter blank_alt (find_all sp ''img''))) =
             (\<exists>img\<in>set (find_all sp ''img''). blank_alt img)"
    by (simp add: filter_empty_conv)
  show ?thesis
    unfolding image_issues_def images_without_alt_of_def w Let_def e
    by (simp add: not_less)
qed

text \<open>
  Claim C7, as amended.  The SEO analyzer emits the image-ALT issue if and only if some
  image has no \<^verbatim>\<open>alt\<close> attribute or one that is empty once whitespace is stripped; it
  emits it once, with type \<^verbatim>\<open>error\<close> when \<^verbatim>\<open>round(missing/max(total,1)*100)\<close> is at
  least 50 and \<^verbatim>\<open>warning\<close> when it is below 50.
\<close>

theorem image_alt_issue:
  assumes "soup a = Some sp"
  shows "\<exists>a'. analyze_seo a = Inr a'
     \<and> filter is_alt_issue (new_issues a a') =
         (if \<exists>img\<in>set (find_all sp ''img''). blank_alt img
          then [mk_issue
                  (if 50 \<le> missing_alt_pct (length (filter blank_alt (find_all sp ''img'')))
                             (length (find_all sp ''img''))
                   then ''error'' else ''warning'')
                  ''seo''
                  (Imagini_fara_ALT (length (filter blank_alt (find_all sp ''img'')))
                     (missing_alt_pct (length (filter blank_alt (find_all sp ''img'')))
                        (length (find_all sp ''img''))))]
          else [])"
proof -
  obtain a' where a': "analyze_seo a = Inr a'" "new_issues a a' = seo_issues sp"
    using analyze_seo_result[OF assms] by blast
  have "filter is_alt_issue (new_issues a a') = image_issues sp"
    by (simp only: a'(2) alt_issues_of_seo)
  then show ?thesis
    unfolding image_issues_blank using a'(1) by (intro exI[of _ a'] conjI)
qed

lemma blank_alt_soup_facts:
  "find_all blank_alt_soup ''img'' = blank_alt_soup"
  "filter blank_alt blank_alt_soup = blank_alt_soup"
  "length blank_alt_soup = 1"
  "missing_alt_pct (Suc 0) (Suc 0) = 100"
  by code_simp+

text \<open>
  One image whose \<^verbatim>\<open>alt\<close> is a single blank: the issue is emitted, as an error, for 1
  image and 100 percent.
\<close>

theorem image_alt_issue_witness:
  "\<exists>a'. analyze_seo example_blank_alt = Inr a'
     \<and> filter is_alt_issue (new_issues example_blank_alt a') =
         [mk_issue ''error'' ''seo'' (Imagini_fara_ALT 1 100)]"
proof -
  have s: "soup example_blank_alt = Some blank_alt_soup"
    by (simp add: example_blank_alt_def)
  have b: "\<exists>img\<in>set blank_alt_soup. blank_alt img"
    by (simp add: blank_alt_soup_def blank_alt_def tag_get_def strip_def isspace_def)
  show ?thesis
    using image_alt_issue[OF s] b by (simp add: blank_alt_soup_facts)
qed

text \<open>
  Against claim C7 as stated: the image of this document has an \<^verbatim>\<open>alt\<close> attribute that is
  not empty (it is one blank), no image lacks a non-empty \<^verbatim>\<open>alt\<close>, and the issue is
  emitted all the same.
\<close>

theorem image_alt_issue_counterexample:
  "\<not> (\<exists>img\<in>set (find_all blank_alt_soup ''img''). lacks_nonempty_alt img)
   \<and> (\<exists>a'. analyze_seo example_blank_alt = Inr a'
         \<and> (\<exists>i\<in>set (new_issues example_blank_alt a'). is_alt_issue i))"
proof -
  have s: "soup example_blank_alt = Some blank_alt_soup"
    by (simp add: example_blank_alt_def)
  obtain a' where a': "analyze_seo example_blank_alt = Inr a'"
    "new_issues example_blank_alt a' = seo_issues blank_alt_soup"
    using analyze_seo_result[OF s] by blast
  have b: "\<exists>img\<in>set blank_alt_soup. blank_alt img"
    by (simp add: blank_alt_soup_def blank_alt_def tag_get_def strip_def isspace_def)
  have "filter is_alt_issue (new_issues example_blank_alt a') =
          [mk_issue ''error'' ''seo'' (Imagini_fara_ALT 1 100)]"
    using b by (simp add: a'(2) alt_issues_of_seo image_issues_blank blank_alt_soup_facts)
  then have "mk_issue ''error'' ''seo'' (Imagini_fara_ALT 1 100)
      \<in> set (filter is_alt_issue (new_issues example_blank_alt a'))" by simp
  then have i: "\<exists>i\<in>set (new_issues example_blank_alt a'). is_alt_issue i" by auto
  have n: "\<not> (\<exists>img\<in>set (find_all blank_alt_soup ''img''). lacks_nonempty_alt img)"
    by (simp add: blank_alt_soup_facts(1))
       (simp add: blank_alt_soup_def lacks_nonempty_alt_def tag_get_def)
  show ?thesis using n a'(1) i by blast
qed








section \<open>Properties of the technical analyzer\<close>










section \<open>Properties of the opportunity generator\<close>

text \<open>
  Claim C6.  From a state in which Google Ads conversion tracking is not detected, at
  least two issues of category \<^verbatim>\<open>seo\<close> are recorded, the platform is one of the
  recognized ones and the list of opportunities is empty, the opportunity generator
  produces exactly three opportunities: conversion tracking setup, on-page SEO
  optimization, platform-specific optimization, in this order.
\<close>

theorem three_opportunities:
  assumes "\<not> google_ads_detected (results a)"
    and "2 \<le> length (filter (\<lambda>i. category i = ''seo'') (issues (results a)))"
    and "platform (results a) = Some p"
    and "p \<in> set [''Merchantpro'', ''Gomag'', ''Shopify'']"
    and "opportunities (results a) = []"
  shows "opportunities (results (generate_opportunities a)) =
     [\<lparr>opp_category = ''google_ads'', opp_title = Setup_Google_Ads_Conversion_Tracking\<rparr>,
      \<lparr>opp_category = ''seo'', opp_title = Optimizare_SEO_On_Page\<rparr>,
      \<lparr>opp_category = ''platform'', opp_title = Optimizare_specifica p\<rparr>]"
  using assms by (simp add: generate_opportunities_def Let_def)

theorem three_opportunities_witness:
  "opportunities (results (generate_opportunities example_before_opportunities)) =
     [\<lparr>opp_category = ''google_ads'', opp_title = Setup_Google_Ads_Conversion_Tracking\<rparr>,
      \<lparr>opp_category = ''seo'', opp_title = Optimizare_SEO_On_Page\<rparr>,
      \<lparr>opp_category = ''platform'', opp_title = Optimizare_specifica ''Gomag''\<rparr>]"
  by (rule three_opportunities)
    (simp_all add: example_before_opportunities_def example_analyzer_def init_def Let_def
       google_ads_detected_def mk_issue_def)

section \<open>The target URL of the analyzer\<close>

text \<open>
  Claim C9.  The target of \<^verbatim>\<open>httpbin.org\<close>, an input without a scheme, is the input
  itself: nothing is put in front of it, and the target has no \<^verbatim>\<open>://\<close>.
\<close>

theorem target_url_httpbin:
  "target_url ''httpbin.org'' = ''httpbin.org'' \<and> \<not> py_in ''://'' (target_url ''httpbin.org'')"
  by (simp add: target_url_def)


end
